theory Spec2Isabelle
  imports Main "HOL-Library.AList"
begin

section \<open>The langchain embedding handler\<close>

text \<open>
  A shallow embedding of
  \<^verbatim>\<open>mindsdb/integrations/handlers/langchain_embedding_handler/langchain_embedding_handler.py\<close>:
  the registry \<^verbatim>\<open>EMBEDDING_MODELS\<close>, \<^verbatim>\<open>get_langchain_class\<close>,
  \<^verbatim>\<open>construct_model_from_args\<close> and the methods \<^verbatim>\<open>create\<close>, \<^verbatim>\<open>predict\<close>,
  \<^verbatim>\<open>row_to_document\<close> and \<^verbatim>\<open>describe\<close> of \<^verbatim>\<open>LangchainEmbeddingHandler\<close>.

  Python exceptions are values of the type \<open>error\<close>; a function that can raise returns
  \<open>error + 'a\<close>. Objects the code mutates in place (the argument dictionary, the input
  dataframe) are returned in their final state next to the result, also when the call
  raises. Calls of the embedding backend and the records written with \<^verbatim>\<open>logger.error\<close>
  are collected in a trace.
\<close>

subsection \<open>Cell values and their textual form\<close>

text \<open>
  The cells of a dataframe. \<^verbatim>\<open>str(value)\<close> is modelled for \<^verbatim>\<open>None\<close>, booleans,
  integers and strings; floating point cells are outside the embedding.
\<close>

datatype pyval = VNone | VBool bool | VInt int | VStr string

definition digit_char :: "nat \<Rightarrow> char" where
  "digit_char d = ''0123456789'' ! d"

function str_nat :: "nat \<Rightarrow> string" where
  "str_nat n = (if n < 10 then [digit_char n] else str_nat (n div 10) @ [digit_char (n mod 10)])"
  by pat_completeness auto
termination
  by (relation "measure id") auto

declare str_nat.simps [simp del]

definition str_int :: "int \<Rightarrow> string" where
  "str_int i = (if i < 0 then CHR ''-'' # str_nat (nat (- i)) else str_nat (nat i))"

fun py_str :: "pyval \<Rightarrow> string" where
  "py_str VNone = ''None''"
| "py_str (VBool b) = (if b then ''True'' else ''False'')"
| "py_str (VInt i) = str_int i"
| "py_str (VStr s) = s"

text \<open>\<^verbatim>\<open>sep.join(parts)\<close>\<close>

fun py_join :: "string \<Rightarrow> string list \<Rightarrow> string" where
  "py_join sep [] = []"
| "py_join sep [x] = x"
| "py_join sep (x # y # ys) = x @ sep @ py_join sep (y # ys)"

text \<open>\<^verbatim>\<open>s.strip("`")\<close>: every leading and every trailing backtick is removed.\<close>

definition backtick :: char where
  "backtick = CHR 0x60"

definition strip_backticks :: "string \<Rightarrow> string" where
  "strip_backticks s = rev (dropWhile (\<lambda>c. c = backtick) (rev (dropWhile (\<lambda>c. c = backtick) s)))"

subsection \<open>Series and dataframes\<close>

text \<open>
  A \<^verbatim>\<open>pandas.Series\<close> holding one row: its index (the column labels) and its values,
  two lists of the same length. A dataframe is its column labels and its rows, each row
  one cell per column.
\<close>

record series =
  s_index :: "string list"
  s_values :: "pyval list"

record 'c dataframe =
  columns :: "string list"
  rows :: "'c list list"

definition newline :: char where
  "newline = CHR 0x0A"

text \<open>\<^verbatim>\<open>LangchainEmbeddingHandler.row_to_document\<close> (lines 226-239).\<close>

definition row_to_document :: "series \<Rightarrow> string" where
  "row_to_document row =
     (let fields = s_index row;
          vals = s_values row
      in py_join [newline] (map (\<lambda>(field, v). field @ '': '' @ py_str v) (zip fields vals)))"

text \<open>The series of a row given as an ordered mapping from columns to values.\<close>

definition series_of :: "(string \<times> pyval) list \<Rightarrow> series" where
  "series_of m = \<lparr>s_index = map fst m, s_values = map snd m\<rparr>"

text \<open>
  The document as the specification words it: one line \<^verbatim>\<open><column>: <value>\<close> for every
  column, in the row's order, every line but the first preceded by a newline.
\<close>

definition document_line :: "string \<times> pyval \<Rightarrow> string" where
  "document_line cv = fst cv @ '': '' @ py_str (snd cv)"

fun newline_joined :: "string list \<Rightarrow> string" where
  "newline_joined [] = []"
| "newline_joined (l # ls) = l @ concat (map (\<lambda>x. newline # x) ls)"

definition spec_document :: "(string \<times> pyval) list \<Rightarrow> string" where
  "spec_document m = newline_joined (map document_line m)"

subsection \<open>Stored arguments, errors and the configuration store\<close>

text \<open>
  The values of an argument dictionary: \<^verbatim>\<open>None\<close>, a string, a list of strings or a
  nested dictionary. A Python dictionary keeps insertion order: it is an association list
  with \<open>map_of\<close> for lookup, \<open>AList.update\<close> for item assignment (in place for a key already
  there, at the end for a new one) and \<open>AList.delete\<close> for \<^verbatim>\<open>pop\<close>.
\<close>

datatype json = JNone | JStr string | JList "string list" | JDict "(string \<times> json) list"

type_synonym pydict = "(string \<times> json) list"

text \<open>
  The exceptions the handler raises or lets through. \<open>InputColumnsNotFound\<close> is the
  \<^verbatim>\<open>Exception\<close> of line 178, whose message interpolates the requested input columns and the
  columns of the dataframe: both lists are its payload. \<open>BackendError\<close> is whatever the
  constructor of the backend class raises. \<open>NotModelled\<close> marks an input outside the
  embedding.
\<close>

datatype error =
    Exception string
  | InputColumnsNotFound "string list" "string list"
  | TypeError string
  | KeyError string
  | ValueError string
  | AttributeError string
  | BackendError string
  | NotModelled string

text \<open>
  Modelled from the spec: the Configuration Store adapter (\<^verbatim>\<open>self.model_storage\<close>, whose
  class is not part of the sources): durable key-value storage with \<^verbatim>\<open>get(name)\<close> and
  \<^verbatim>\<open>set(name, value)\<close>. What a name that was never set reads as is left to the store: the
  store is a total function, and the initial store is a parameter.
\<close>

type_synonym storage = "string \<Rightarrow> json"

definition json_get :: "storage \<Rightarrow> string \<Rightarrow> json" where
  "json_get store name = store name"

definition json_set :: "storage \<Rightarrow> string \<Rightarrow> json \<Rightarrow> storage" where
  "json_set store name v = store (name := v)"

subsection \<open>Embedding models, their classes and the registry\<close>

text \<open>
  An embedding model: \<^verbatim>\<open>embed_documents\<close> returns one vector per document or raises
  (\<open>Inl\<close> of the exception's text), and the attribute \<^verbatim>\<open>batch_size\<close> may be absent. The
  vectors are of an arbitrary type \<open>'v\<close>. A backend class says whether it is a pydantic
  \<^verbatim>\<open>BaseModel\<close>, which fields it declares, and what its constructor does with the keyword
  arguments.
\<close>

record 'v embeddings =
  embed_documents :: "string list \<Rightarrow> string + 'v list"
  batch_size :: "int option"

record 'v model_class =
  is_base_model :: bool
  model_fields :: "string list"
  init :: "pydict \<Rightarrow> string + 'v embeddings"

text \<open>
  What the handler imports: the names of \<^verbatim>\<open>langchain_community.embeddings.__all__\<close> whose
  class is a subclass of \<^verbatim>\<open>Embeddings\<close>, in the order of \<^verbatim>\<open>__all__\<close>; the classes found
  by \<^verbatim>\<open>getattr\<close> on that module; and the two classes of the handler's own package. The
  module is imported when the handler is loaded, and loading fails when it cannot be: in a
  loaded handler the \<^verbatim>\<open>ImportError\<close> branches are dead, and they are not modelled.
\<close>

record 'v env =
  community_embeddings :: "string list"
  community_getattr :: "string \<Rightarrow> 'v model_class option"
  VLLMEmbeddings :: "'v model_class"
  FastAPIEmbeddings :: "'v model_class"

text \<open>\<^verbatim>\<open>s.replace(old, new)\<close> for a non-empty \<open>old\<close>, and \<^verbatim>\<open>s.lower()\<close> on ASCII letters.\<close>

function py_replace :: "string \<Rightarrow> string \<Rightarrow> string \<Rightarrow> string" where
  "py_replace old new [] = []"
| "py_replace old new (c # cs) =
     (if take (length old) (c # cs) = old
      then new @ py_replace old new (drop (length old - 1) cs)
      else c # py_replace old new cs)"
  by pat_completeness auto
termination
  by (relation "measure (\<lambda>(old, new, s). length s)") auto

definition lower_char :: "char \<Rightarrow> char" where
  "lower_char c =
     (case map_of (zip ''ABCDEFGHIJKLMNOPQRSTUVWXYZ'' ''abcdefghijklmnopqrstuvwxyz'') c of
        None \<Rightarrow> c
      | Some l \<Rightarrow> l)"

definition py_lower :: "string \<Rightarrow> string" where
  "py_lower s = map lower_char s"

text \<open>\<^verbatim>\<open>EMBEDDING_MODELS\<close> (lines 22-41): the four built-in entries, then two per imported class.\<close>

definition builtin_models :: "(string \<times> string) list" where
  "builtin_models =
     [(''VLLM'', ''VLLMEmbeddings''), (''vllm'', ''VLLMEmbeddings''),
      (''FastAPI'', ''FastAPIEmbeddings''), (''fastapi'', ''FastAPIEmbeddings'')]"

definition register_class :: "(string \<times> string) list \<Rightarrow> string \<Rightarrow> (string \<times> string) list" where
  "register_class models class_name =
     (let user_friendly_name = py_replace ''Embeddings'' [] class_name
      in AList.update (py_lower user_friendly_name) class_name
           (AList.update user_friendly_name class_name models))"

definition EMBEDDING_MODELS :: "'v env \<Rightarrow> (string \<times> string) list" where
  "EMBEDDING_MODELS env = foldl register_class builtin_models (community_embeddings env)"

definition DEFAULT_EMBEDDING_CLASS :: string where
  "DEFAULT_EMBEDDING_CLASS = ''OpenAIEmbeddings''"

text \<open>Lines 86-90: a name registered in \<^verbatim>\<open>EMBEDDING_MODELS\<close> is replaced by its entry.\<close>

definition resolve_alias :: "'v env \<Rightarrow> string \<Rightarrow> string" where
  "resolve_alias env class_name =
     (case map_of (EMBEDDING_MODELS env) class_name of
        Some mapped \<Rightarrow> mapped
      | None \<Rightarrow> class_name)"

text \<open>\<^verbatim>\<open>get_langchain_class\<close> (lines 49-77).\<close>

definition get_langchain_class :: "'v env \<Rightarrow> string \<Rightarrow> error + 'v model_class" where
  "get_langchain_class env class_name =
     (if class_name = ''VLLMEmbeddings'' then Inr (VLLMEmbeddings env)
      else if class_name = ''FastAPIEmbeddings'' then Inr (FastAPIEmbeddings env)
      else (case community_getattr env class_name of
              None \<Rightarrow> Inl (Exception (''Could not find the class '' @ class_name
                @ '' in langchain_community.embeddings. Please check the class name.''))
            | Some class_ \<Rightarrow> Inr class_))"

text \<open>
  \<^verbatim>\<open>construct_model_from_args\<close> (lines 80-104). The function works on the dictionary it is
  given: the first component of the result is that dictionary when the call is left, by
  \<^verbatim>\<open>return\<close> or by an exception. A \<^verbatim>\<open>class\<close> entry that is not a string ends in a
  \<^verbatim>\<open>TypeError\<close> (a list is unhashable at line 86, \<^verbatim>\<open>None\<close> is no attribute name at
  line 68).
\<close>

definition construct_model_from_args :: "'v env \<Rightarrow> pydict \<Rightarrow> pydict \<times> (error + 'v embeddings)" where
  "construct_model_from_args env args =
     (let target = (case map_of args ''target'' of None \<Rightarrow> JNone | Some t \<Rightarrow> t);
          args1 = AList.delete ''target'' args;
          cls = (case map_of args1 ''class'' of None \<Rightarrow> JStr DEFAULT_EMBEDDING_CLASS | Some c \<Rightarrow> c);
          args2 = AList.delete ''class'' args1
      in case cls of
           JStr given_name \<Rightarrow>
             (let class_name = resolve_alias env given_name
              in case get_langchain_class env class_name of
                   Inl e \<Rightarrow> (args2, Inl e)
                 | Inr MODEL_CLASS \<Rightarrow>
                     (let serialized_dict =
                            (if is_base_model MODEL_CLASS
                             then filter (\<lambda>(k, v). k \<in> set (model_fields MODEL_CLASS)) args2
                             else args2)
                      in case init MODEL_CLASS serialized_dict of
                           Inl msg \<Rightarrow> (args2, Inl (BackendError msg))
                         | Inr model \<Rightarrow>
                             (let args3 = (if target \<noteq> JNone
                                           then AList.update ''target'' target args2
                                           else args2)
                              in (AList.update ''class'' (JStr class_name) args3, Inr model))))
         | _ \<Rightarrow> (args2, Inl (TypeError ''class'')))"

subsection \<open>Creation and description\<close>

definition startswith :: "string \<Rightarrow> string \<Rightarrow> bool" where
  "startswith s pre = (take (length pre) s = pre)"

text \<open>
  \<^verbatim>\<open>LangchainEmbeddingHandler.create\<close> (lines 118-157): the result and the store afterwards.
  A \<^verbatim>\<open>using\<close> entry that is not a dictionary is outside the embedding.
\<close>

definition create ::
  "'v env \<Rightarrow> storage \<Rightarrow> string option \<Rightarrow> pyval dataframe option \<Rightarrow> pydict \<Rightarrow> (error + unit) \<times> storage"
where
  "create env store target df args =
     (case (case map_of args ''using'' of
              None \<Rightarrow> Inr []
            | Some (JDict d) \<Rightarrow> Inr d
            | Some _ \<Rightarrow> Inl (NotModelled ''using'')) of
        Inl e \<Rightarrow> (Inl e, store)
      | Inr user_args \<Rightarrow>
          (let user_args1 =
                 (if map_of user_args ''input_columns'' = None
                  then (case df of
                          Some d \<Rightarrow>
                            AList.update ''input_columns''
                              (JList (map strip_backticks
                                 (filter (\<lambda>col. \<not> startswith col ''__mindsdb'' \<and> Some col \<noteq> target)
                                    (columns d))))
                              user_args
                        | None \<Rightarrow> AList.update ''input_columns'' (JList []) user_args)
                  else user_args)
           in case construct_model_from_args env user_args1 of
                (user_args2, Inl e) \<Rightarrow> (Inl e, store)
              | (user_args2, Inr model) \<Rightarrow>
                  (let target1 = (case target of
                                    None \<Rightarrow> ''embeddings''
                                  | Some t \<Rightarrow> if t = [] then ''embeddings'' else t)
                   in (Inr (),
                       json_set store ''args''
                         (JDict (AList.update ''target'' (JStr target1) user_args2))))))"

text \<open>
  \<^verbatim>\<open>LangchainEmbeddingHandler.describe\<close> (lines 248-263): a two-column frame of keys and
  values, or the one-column frame of the names of the views.
\<close>

datatype view = KeyValue "(string \<times> json) list" | Tables "string list"

definition describe :: "storage \<Rightarrow> string option \<Rightarrow> error + view" where
  "describe store attribute =
     (let args = json_get store ''args''
      in if attribute = Some ''args''
         then (case args of
                 JDict d \<Rightarrow> Inr (KeyValue d)
               | _ \<Rightarrow> Inl (AttributeError ''items''))
         else if attribute = Some ''metadata''
         then Inr (KeyValue [(''model_class'', json_get store ''model_class'')])
         else Inr (Tables [''args'', ''metadata'']))"

subsection \<open>Prediction\<close>

text \<open>
  The trace of a prediction: the arguments of the calls of \<^verbatim>\<open>embed_documents\<close>, in the order
  they are made, and the records written with \<^verbatim>\<open>logger.error\<close>.
\<close>

record trace =
  calls :: "string list list"
  error_log :: "string list"

definition no_trace :: trace where
  "no_trace = \<lparr>calls = [], error_log = []\<rparr>"

text \<open>
  \<^verbatim>\<open>range(start, stop, step)\<close> as the list of its elements; a zero step raises.
\<close>

definition py_range :: "int \<Rightarrow> int \<Rightarrow> int \<Rightarrow> error + int list" where
  "py_range start stop step =
     (if step = 0 then Inl (ValueError ''range() arg 3 must not be zero'')
      else if 0 < step
      then Inr (map (\<lambda>i. start + int i * step) [0..<nat ((stop - start + step - 1) div step)])
      else Inr (map (\<lambda>i. start + int i * step) [0..<nat ((start - stop - step - 1) div (- step))]))"

text \<open>
  \<^verbatim>\<open>batch_df[input_columns]\<close> on one row: for every requested label, in the order of the
  request, the cells of the columns with that label. (A label that no column has raises
  a \<^verbatim>\<open>KeyError\<close> in pandas; \<^verbatim>\<open>predict\<close> has checked the labels at line 177 before it
  selects.)
\<close>

definition select_columns :: "string list \<Rightarrow> string list \<Rightarrow> pyval list \<Rightarrow> series" where
  "select_columns input_columns labels row =
     (let picked = concat (map (\<lambda>col. filter (\<lambda>(label, v). label = col) (zip labels row)) input_columns)
      in \<lparr>s_index = map fst picked, s_values = map snd picked\<rparr>)"

text \<open>\<^verbatim>\<open>batch_df[input_columns].apply(self.row_to_document, axis=1)\<close> for the rows of a slice.\<close>

definition batch_documents :: "pyval dataframe \<Rightarrow> string list \<Rightarrow> nat \<Rightarrow> nat \<Rightarrow> string list" where
  "batch_documents df input_columns start_idx end_idx =
     map (\<lambda>row. row_to_document (select_columns input_columns (columns df) row))
       (take (end_idx - start_idx) (drop start_idx (rows df)))"

text \<open>\<^verbatim>\<open>model.embed_documents([text])[0]\<close>: indexing an empty answer raises \<^verbatim>\<open>IndexError\<close>.\<close>

definition first_embedding :: "string + 'v list \<Rightarrow> string + 'v" where
  "first_embedding answer =
     (case answer of
        Inl msg \<Rightarrow> Inl msg
      | Inr [] \<Rightarrow> Inl ''list index out of range''
      | Inr (embedding # _) \<Rightarrow> Inr embedding)"

text \<open>The fallback loop of lines 207-217 over the documents of one batch.\<close>

fun embed_one_by_one ::
  "'v embeddings \<Rightarrow> int \<Rightarrow> string list \<Rightarrow> 'v list \<Rightarrow> trace \<Rightarrow> (error + 'v list) \<times> trace"
where
  "embed_one_by_one model start_idx [] batch_embeddings tr = (Inr batch_embeddings, tr)"
| "embed_one_by_one model start_idx (text # texts) batch_embeddings tr =
     (let tr1 = tr\<lparr>calls := calls tr @ [[text]]\<rparr>
      in case first_embedding (embed_documents model [text]) of
           Inr embedding \<Rightarrow>
             embed_one_by_one model start_idx texts (batch_embeddings @ [embedding]) tr1
         | Inl inner_e \<Rightarrow>
             (Inl (Exception
                (''Failed to generate embedding for document. Original error: '' @ inner_e)),
              tr1\<lparr>error_log := error_log tr1 @
                [''Error embedding document at index ''
                   @ str_int (start_idx + int (length batch_embeddings)) @ '': '' @ inner_e]\<rparr>))"

text \<open>The body of the loop of lines 191-218 for one value of \<^verbatim>\<open>start_idx\<close>.\<close>

definition process_batch ::
  "'v embeddings \<Rightarrow> pyval dataframe \<Rightarrow> string list \<Rightarrow> int \<Rightarrow> int \<Rightarrow> int \<Rightarrow> 'v list \<Rightarrow> trace
     \<Rightarrow> (error + 'v list) \<times> trace"
where
  "process_batch model df input_columns bsize total_rows start_idx all_embeddings tr =
     (let end_idx = min (start_idx + bsize) total_rows;
          batch_texts = batch_documents df input_columns (nat start_idx) (nat end_idx);
          tr1 = tr\<lparr>calls := calls tr @ [batch_texts]\<rparr>
      in case embed_documents model batch_texts of
           Inr batch_embeddings \<Rightarrow> (Inr (all_embeddings @ batch_embeddings), tr1)
         | Inl e \<Rightarrow>
             (case embed_one_by_one model start_idx batch_texts [] tr1 of
                (Inl err, tr2) \<Rightarrow> (Inl err, tr2)
              | (Inr batch_embeddings, tr2) \<Rightarrow> (Inr (all_embeddings @ batch_embeddings), tr2)))"

fun for_batches ::
  "(int \<Rightarrow> 'v list \<Rightarrow> trace \<Rightarrow> (error + 'v list) \<times> trace) \<Rightarrow> int list \<Rightarrow> 'v list \<Rightarrow> trace
     \<Rightarrow> (error + 'v list) \<times> trace"
where
  "for_batches body [] all_embeddings tr = (Inr all_embeddings, tr)"
| "for_batches body (start_idx # starts) all_embeddings tr =
     (case body start_idx all_embeddings tr of
        (Inl e, tr1) \<Rightarrow> (Inl e, tr1)
      | (Inr all_embeddings1, tr1) \<Rightarrow> for_batches body starts all_embeddings1 tr1)"

text \<open>\<^verbatim>\<open>getattr(model, 'batch_size', 32)\<close> (line 183).\<close>

definition get_batch_size :: "'v embeddings \<Rightarrow> int" where
  "get_batch_size model = (case batch_size model of None \<Rightarrow> 32 | Some b \<Rightarrow> b)"

text \<open>Lines 182-220: the batch size, the range of the batch starts and the loop.\<close>

definition embed_batches ::
  "'v embeddings \<Rightarrow> pyval dataframe \<Rightarrow> string list \<Rightarrow> (error + 'v list) \<times> trace"
where
  "embed_batches model df input_columns =
     (let bsize = get_batch_size model;
          total_rows = int (length (rows df))
      in case py_range 0 total_rows bsize of
           Inl e \<Rightarrow> (Inl e, no_trace)
         | Inr starts \<Rightarrow>
             for_batches (process_batch model df input_columns bsize total_rows) starts [] no_trace)"

text \<open>
  \<^verbatim>\<open>df.copy().assign(**{target: all_embeddings})\<close>: a new frame whose cells are the old
  values or vectors. A target that is no string is no keyword; a list of another length
  than the frame raises \<^verbatim>\<open>ValueError\<close>; a target that labels columns of the frame replaces
  their cells, any other target is a new last column.
\<close>

datatype 'v cell = Val pyval | Vec 'v

definition assign :: "json \<Rightarrow> 'v list \<Rightarrow> pyval dataframe \<Rightarrow> error + 'v cell dataframe" where
  "assign target all_embeddings df =
     (case target of
        JStr name \<Rightarrow>
          (if length all_embeddings \<noteq> length (rows df)
           then Inl (ValueError ''Length of values does not match length of index'')
           else if name \<in> set (columns df)
           then Inr \<lparr>columns = columns df,
                     rows = map (\<lambda>(row, e). map (\<lambda>(label, v). if label = name then Vec e else Val v)
                                              (zip (columns df) row))
                              (zip (rows df) all_embeddings)\<rparr>
           else Inr \<lparr>columns = columns df @ [name],
                     rows = map (\<lambda>(row, e). map Val row @ [Vec e]) (zip (rows df) all_embeddings)\<rparr>)
      | _ \<Rightarrow> Inl (TypeError ''keywords must be strings''))"

text \<open>
  \<^verbatim>\<open>user_args.get("input_columns") or df.columns.tolist()\<close>: a missing, \<^verbatim>\<open>None\<close> or empty
  entry gives the columns of the frame. An entry that is a non-empty string or dictionary
  is outside the embedding.
\<close>

definition resolve_input_columns :: "json option \<Rightarrow> string list \<Rightarrow> error + string list" where
  "resolve_input_columns entry df_columns =
     (case entry of
        None \<Rightarrow> Inr df_columns
      | Some JNone \<Rightarrow> Inr df_columns
      | Some (JList cols) \<Rightarrow> Inr (if cols = [] then df_columns else cols)
      | Some (JStr s) \<Rightarrow> if s = [] then Inr df_columns else Inl (NotModelled ''input_columns'')
      | Some (JDict d) \<Rightarrow> if d = [] then Inr df_columns else Inl (NotModelled ''input_columns''))"

text \<open>
  The outcome of \<^verbatim>\<open>predict\<close>: what it returns or raises, the dataframe object of the caller
  when the call is left, and the trace.
\<close>

record 'v outcome =
  result :: "error + 'v cell dataframe"
  caller_df :: "pyval dataframe"
  events :: trace

definition raised :: "error \<Rightarrow> pyval dataframe \<Rightarrow> trace \<Rightarrow> 'v outcome" where
  "raised e df tr = \<lparr>result = Inl e, caller_df = df, events = tr\<rparr>"

text \<open>
  \<^verbatim>\<open>LangchainEmbeddingHandler.predict\<close> (lines 159-224). A stored \<^verbatim>\<open>args\<close> that is no
  dictionary has no two-argument \<^verbatim>\<open>pop\<close>.
\<close>

definition predict :: "'v env \<Rightarrow> storage \<Rightarrow> pyval dataframe \<Rightarrow> 'v outcome" where
  "predict env store df =
     (case json_get store ''args'' of
        JDict stored \<Rightarrow>
          (case construct_model_from_args env stored of
             (user_args, Inl e) \<Rightarrow> raised e df no_trace
           | (user_args, Inr model) \<Rightarrow>
               (case map_of user_args ''target'' of
                  None \<Rightarrow> raised (KeyError ''target'') df no_trace
                | Some target \<Rightarrow>
                    (let cols_dfs = map strip_backticks (columns df);
                         df1 = df\<lparr>columns := cols_dfs\<rparr>
                     in case resolve_input_columns (map_of user_args ''input_columns'') (columns df1) of
                          Inl e \<Rightarrow> raised e df1 no_trace
                        | Inr input_columns \<Rightarrow>
                            if \<not> list_all (\<lambda>col. col \<in> set cols_dfs) input_columns
                            then raised (InputColumnsNotFound input_columns (columns df1)) df1 no_trace
                            else (case embed_batches model df1 input_columns of
                                    (Inl e, tr) \<Rightarrow> raised e df1 tr
                                  | (Inr all_embeddings, tr) \<Rightarrow>
                                      \<lparr>result = assign target all_embeddings df1,
                                       caller_df = df1, events = tr\<rparr>))))
      | JList l \<Rightarrow> raised (TypeError ''pop'') df no_trace
      | _ \<Rightarrow> raised (AttributeError ''pop'') df no_trace)"

subsection \<open>Notions the properties are stated with\<close>

text \<open>The documents of all rows of a frame, in row order.\<close>

definition documents :: "pyval dataframe \<Rightarrow> string list \<Rightarrow> string list" where
  "documents df input_columns =
     map (\<lambda>row. row_to_document (select_columns input_columns (columns df) row)) (rows df)"

text \<open>
  The contiguous batches of a list: the first \<open>b\<close> elements, then the batches of the rest.
\<close>

function chunks :: "nat \<Rightarrow> 'a list \<Rightarrow> 'a list list" where
  "chunks b xs = (if b = 0 \<or> xs = [] then [] else take b xs # chunks b (drop b xs))"
  by pat_completeness auto
termination
  by (relation "measure (\<lambda>(b, xs). length xs)") auto

declare chunks.simps [simp del]

text \<open>
  A batch yields the vectors of an embedding \<open>f\<close> of single documents when the call on the
  batch answers with them, or when that call raises and every document of the batch,
  embedded alone, gives its vector.
\<close>

definition batch_yields ::
  "'v embeddings \<Rightarrow> (string \<Rightarrow> 'v) \<Rightarrow> string list \<Rightarrow> bool"
where
  "batch_yields model f batch =
     (embed_documents model batch = Inr (map f batch) \<or>
      (isl (embed_documents model batch) \<and>
       list_all (\<lambda>d. first_embedding (embed_documents model [d]) = Inr (f d)) batch))"

text \<open>
  A batch completes when the call on it answers, or when every document of it, embedded
  alone, gives a vector.
\<close>

definition batch_completes :: "'v embeddings \<Rightarrow> string list \<Rightarrow> bool" where
  "batch_completes model batch =
     (\<not> isl (embed_documents model batch) \<or>
      list_all (\<lambda>d. \<not> isl (first_embedding (embed_documents model [d]))) batch)"

text \<open>
  The registry is alias-closed when no backend identifier it resolves to is itself
  registered as an alias of another identifier.
\<close>

definition alias_closed :: "'v env \<Rightarrow> bool" where
  "alias_closed env =
     list_all (\<lambda>(alias, name). resolve_alias env name = name) (EMBEDDING_MODELS env)"

text \<open>
  The two names a class is registered under, and a condition on the imported class names
  alone under which the registry is alias-closed: no class, imported or built in, is
  named like an alias of another imported class, and no imported class is named like a
  built-in alias.
\<close>

definition aliases_of :: "string \<Rightarrow> string list" where
  "aliases_of class_name =
     [py_replace ''Embeddings'' [] class_name, py_lower (py_replace ''Embeddings'' [] class_name)]"

definition well_named :: "string list \<Rightarrow> bool" where
  "well_named names =
     (list_all (\<lambda>z. list_all (\<lambda>v. v \<in> set (aliases_of z) \<longrightarrow> v = z)
                      (names @ [''VLLMEmbeddings'', ''FastAPIEmbeddings''])) names \<and>
      list_all (\<lambda>v. v \<notin> fst ` set builtin_models) names)"

subsection \<open>A small installation\<close>

text \<open>
  A concrete environment, store and dataframe on which the properties below are
  evaluated. Every backend class is a pydantic model with the one field \<^verbatim>\<open>model\<close>; its
  instances embed with the given function and advertise the given batch size. Vectors are
  natural numbers.
\<close>

definition example_model :: "(string list \<Rightarrow> string + nat list) \<Rightarrow> int option \<Rightarrow> nat embeddings" where
  "example_model embed_fn bs = \<lparr>embed_documents = embed_fn, batch_size = bs\<rparr>"

definition example_class :: "(string list \<Rightarrow> string + nat list) \<Rightarrow> int option \<Rightarrow> nat model_class" where
  "example_class embed_fn bs =
     \<lparr>is_base_model = True, model_fields = [''model''],
      init = (\<lambda>kwargs. Inr (example_model embed_fn bs))\<rparr>"

definition example_env :: "(string list \<Rightarrow> string + nat list) \<Rightarrow> int option \<Rightarrow> nat env" where
  "example_env embed_fn bs =
     \<lparr>community_embeddings = [''OpenAIEmbeddings'', ''FakeEmbeddings''],
      community_getattr =
        (\<lambda>name. if name = ''OpenAIEmbeddings'' \<or> name = ''FakeEmbeddings''
                then Some (example_class embed_fn bs) else None),
      VLLMEmbeddings = example_class embed_fn bs,
      FastAPIEmbeddings = example_class embed_fn bs\<rparr>"

definition example_args :: pydict where
  "example_args =
     [(''model'', JStr ''m''), (''input_columns'', JList []),
      (''target'', JStr ''emb''), (''class'', JStr ''VLLMEmbeddings'')]"

definition empty_store :: storage where
  "empty_store = (\<lambda>name. JNone)"

definition example_store :: storage where
  "example_store = json_set empty_store ''args'' (JDict example_args)"

definition example_df :: "pyval dataframe" where
  "example_df =
     \<lparr>columns = [[backtick] @ ''a'' @ [backtick], ''b''],
      rows = [[VInt 1, VStr ''x''], [VInt 22, VStr ''y''], [VInt 333, VStr ''z'']]\<rparr>"

text \<open>
  Stored arguments with the given input columns and target, a store holding given
  arguments, and a frame with the columns \<^verbatim>\<open>a\<close>, \<^verbatim>\<open>b\<close> and \<^verbatim>\<open>target\<close>.
\<close>

definition stored_args :: "string list \<Rightarrow> string \<Rightarrow> pydict" where
  "stored_args cols target =
     [(''model'', JStr ''m''), (''input_columns'', JList cols),
      (''target'', JStr target), (''class'', JStr ''VLLMEmbeddings'')]"

definition store_with :: "pydict \<Rightarrow> storage" where
  "store_with args = json_set empty_store ''args'' (JDict args)"

definition target_df :: "pyval dataframe" where
  "target_df = \<lparr>columns = [''a'', ''b'', ''target''], rows = [[VInt 1, VInt 2, VInt 3]]\<rparr>"

text \<open>
  Arguments that name the backend by an alias, the arguments they become, arguments that
  name no backend, and the arguments of a \<^verbatim>\<open>CREATE MODEL\<close> statement with what is stored
  for them.
\<close>

definition alias_args :: pydict where
  "alias_args =
     [(''class'', JStr ''openai''), (''model'', JStr ''m''), (''legacy'', JNone),
      (''target'', JStr ''emb'')]"

definition resolved_args :: pydict where
  "resolved_args =
     [(''model'', JStr ''m''), (''legacy'', JNone), (''target'', JStr ''emb''),
      (''class'', JStr ''OpenAIEmbeddings'')]"

definition unknown_args :: pydict where
  "unknown_args = [(''target'', JStr ''emb''), (''class'', JStr ''NoSuchClass'')]"

definition create_args :: pydict where
  "create_args = [(''using'', JDict [(''class'', JStr ''VLLM'')])]"

definition created_args :: pydict where
  "created_args =
     [(''input_columns'', JList []), (''class'', JStr ''VLLMEmbeddings''),
      (''target'', JStr ''emb'')]"

definition example_doc_x :: string where
  "example_doc_x = ''a: 1'' @ [newline] @ ''b: x''"

definition example_doc_y :: string where
  "example_doc_y = ''a: 22'' @ [newline] @ ''b: y''"

definition example_doc_z :: string where
  "example_doc_z = ''a: 333'' @ [newline] @ ''b: z''"

text \<open>
  Three backends: one that answers every call with the lengths of the documents, one that
  refuses every call of more than one document, and one that also refuses the document
  of the row with \<^verbatim>\<open>b = y\<close>.
\<close>

definition length_backend :: "string list \<Rightarrow> string + nat list" where
  "length_backend ds = Inr (map length ds)"

definition single_backend :: "string list \<Rightarrow> string + nat list" where
  "single_backend ds = (if 1 < length ds then Inl ''too many documents'' else Inr (map length ds))"

definition picky_backend :: "string \<Rightarrow> string list \<Rightarrow> string + nat list" where
  "picky_backend bad ds =
     (if 1 < length ds then Inl ''too many documents''
      else if ds = [bad] then Inl ''boom''
      else Inr (map length ds))"

section \<open>Properties\<close>

subsection \<open>The batch loop\<close>

lemma py_range_pos:
  assumes "0 < b"
  shows "py_range 0 (int n) (int b) = Inr (map (\<lambda>i. int (i * b)) [0..<(n + b - 1) div b])"
proof -
  have "int n - 0 + int b - 1 = int (n + b - 1)" using assms by (simp add: of_nat_diff)
  then have "nat ((int n - 0 + int b - 1) div int b) = (n + b - 1) div b"
    by (metis nat_int zdiv_int)
  then show ?thesis using assms by (simp add: py_range_def)
qed

lemma concat_slices:
  "concat (map (\<lambda>i. take b (drop (i * b) xs)) [0..<k]) = take (k * b) xs"
proof (induction k)
  case 0
  show ?case by simp
next
  case (Suc k)
  have "take (k * b) xs @ take b (drop (k * b) xs) = take (k * b + b) xs"
    by (simp add: take_add)
  then show ?case using Suc by (simp add: add.commute)
qed

lemma slices_chunks:
  "0 < b \<Longrightarrow> map (\<lambda>i. take b (drop (i * b) xs)) [0..<(length xs + b - 1) div b] = chunks b xs"
proof (induction b xs rule: chunks.induct)
  case (1 b xs)
  show ?case
  proof (cases "xs = []")
    case True
    then show ?thesis using "1.prems" by (simp add: chunks.simps)
  next
    case False
    let ?k = "(length xs + b - 1) div b"
    let ?k' = "(length (drop b xs) + b - 1) div b"
    obtain m where m: "length xs = Suc m" using False by (cases xs) auto
    have k: "?k = Suc ?k'"
    proof (cases "length xs \<le> b")
      case True
      then have "?k' = 0" using "1.prems" by simp
      moreover have "m < b" using True m by simp
      then have "(m + b) div b = 1" using "1.prems" by (simp add: div_add_self2)
      ultimately show ?thesis using m by simp
    next
      case False
      then have "length (drop b xs) + b - 1 = m" using m by simp
      then show ?thesis using m "1.prems" by (simp add: div_add_self2)
    qed
    have "map (\<lambda>i. take b (drop (i * b) xs)) [0..<Suc ?k']
          = take b xs # map (\<lambda>i. take b (drop (i * b) (drop b xs))) [0..<?k']"
      by (simp add: upt_conv_Cons map_Suc_upt[symmetric] del: upt_Suc) (simp add: add.commute)
    then show ?thesis using 1 False k by (simp add: chunks.simps[of b xs])
  qed
qed


lemma concat_chunks: "0 < b \<Longrightarrow> concat (chunks b xs) = xs"
proof -
  assume b: "0 < b"
  let ?k = "(length xs + b - 1) div b"
  have "length xs \<le> ?k * b"
  proof -
    have "length xs + b - 1 < ?k * b + b"
      using b by (metis add.commute div_mult_mod_eq mod_less_divisor add_less_cancel_left mult.commute nat_add_left_cancel_less)
    then show ?thesis using b by simp
  qed
  then have "take (?k * b) xs = xs" by simp
  then show ?thesis
    using concat_slices[of b xs ?k] slices_chunks[OF b, of xs] by simp
qed

lemma batch_documents_slice:
  "batch_documents df cols s e = take (e - s) (drop s (documents df cols))"
  by (simp add: batch_documents_def documents_def take_map drop_map)

lemma batch_documents_chunk:
  "batch_documents df cols (nat (int (i * b))) (nat (min (int (i * b) + int b) (int (length (rows df)))))
     = take b (drop (i * b) (documents df cols))"
proof -
  let ?ds = "documents df cols"
  have len: "length ?ds = length (rows df)" by (simp add: documents_def)
  have "nat (min (int (i * b) + int b) (int (length (rows df)))) = min (i * b + b) (length (rows df))"
    by (metis nat_int of_nat_add of_nat_min)
  moreover have "take (min (i * b + b) (length ?ds) - i * b) (drop (i * b) ?ds) = take b (drop (i * b) ?ds)"
    by (cases "i * b + b \<le> length ?ds") (simp_all add: min_def)
  ultimately show ?thesis using len
    by (simp add: batch_documents_slice del: of_nat_mult of_nat_add)
qed

lemma process_batch_batch_ok:
  assumes "embed_documents model (take b (drop (i * b) (documents df cols))) = Inr vs"
  shows "process_batch model df cols (int b) (int (length (rows df))) (int (i * b)) acc tr
         = (Inr (acc @ vs), tr\<lparr>calls := calls tr @ [take b (drop (i * b) (documents df cols))]\<rparr>)"
  using assms unfolding process_batch_def Let_def batch_documents_chunk by simp

lemma embed_one_by_one_ok:
  assumes "\<forall>d \<in> set texts. first_embedding (embed_documents model [d]) = Inr (f d)"
  shows "embed_one_by_one model s texts be tr
         = (Inr (be @ map f texts), tr\<lparr>calls := calls tr @ map (\<lambda>d. [d]) texts\<rparr>)"
  using assms
proof (induction texts arbitrary: be tr)
  case Nil
  show ?case by simp
next
  case (Cons d texts)
  then show ?case by simp
qed

lemma embed_one_by_one_fails:
  assumes "\<forall>d \<in> set pre. first_embedding (embed_documents model [d]) = Inr (f d)"
      and "first_embedding (embed_documents model [bad]) = Inl msg"
  shows "embed_one_by_one model s (pre @ bad # post) be tr
         = (Inl (Exception (''Failed to generate embedding for document. Original error: '' @ msg)),
            tr\<lparr>calls := calls tr @ map (\<lambda>d. [d]) (pre @ [bad]),
               error_log := error_log tr @
                 [''Error embedding document at index ''
                    @ str_int (s + int (length be + length pre)) @ '': '' @ msg]\<rparr>)"
  using assms
proof (induction pre arbitrary: be tr)
  case Nil
  then show ?case by simp
next
  case (Cons d pre)
  then show ?case by (simp add: algebra_simps)
qed

lemma for_batches_append:
  "for_batches body (xs @ ys) acc tr =
     (case for_batches body xs acc tr of
        (Inl e, tr1) \<Rightarrow> (Inl e, tr1)
      | (Inr acc1, tr1) \<Rightarrow> for_batches body ys acc1 tr1)"
proof (induction xs arbitrary: acc tr)
  case Nil
  show ?case by simp
next
  case (Cons x xs)
  then show ?case by (simp split: prod.splits sum.splits)
qed

lemma for_batches_never_fails:
  assumes "\<forall>ds. \<exists>vs. embed_documents model ds = Inr vs"
  shows "for_batches (process_batch model df cols (int b) (int (length (rows df))))
           (map (\<lambda>i. int (i * b)) js) acc tr
         = (Inr (acc @ concat (map (\<lambda>i. projr (embed_documents model
                                     (take b (drop (i * b) (documents df cols))))) js)),
            tr\<lparr>calls := calls tr @ map (\<lambda>i. take b (drop (i * b) (documents df cols))) js\<rparr>)"
proof (induction js arbitrary: acc tr)
  case Nil
  show ?case by simp
next
  case (Cons j js)
  obtain vs where vs: "embed_documents model (take b (drop (j * b) (documents df cols))) = Inr vs"
    using assms by blast
  show ?case
    using Cons.IH vs
    by (simp add: process_batch_batch_ok[OF vs] del: of_nat_mult of_nat_add)
qed

lemma embed_batches_never_fails:
  assumes bs: "0 < get_batch_size model"
      and ok: "\<forall>ds. \<exists>vs. embed_documents model ds = Inr vs"
  shows "embed_batches model df cols
         = (Inr (concat (map (\<lambda>ds. projr (embed_documents model ds))
                     (chunks (nat (get_batch_size model)) (documents df cols)))),
            \<lparr>calls = chunks (nat (get_batch_size model)) (documents df cols), error_log = []\<rparr>)"
proof -
  let ?b = "nat (get_batch_size model)"
  let ?docs = "documents df cols"
  have b: "0 < ?b" and ib: "get_batch_size model = int ?b" using bs by simp_all
  have len: "length ?docs = length (rows df)" by (simp add: documents_def)
  have range: "py_range 0 (int (length (rows df))) (get_batch_size model)
        = Inr (map (\<lambda>i. int (i * ?b)) [0..<(length ?docs + ?b - 1) div ?b])"
    using py_range_pos[OF b, of "length (rows df)"] ib len by simp
  have sl: "map (\<lambda>i. take ?b (drop (i * ?b) ?docs)) [0..<(length ?docs + ?b - 1) div ?b] = chunks ?b ?docs"
    by (rule slices_chunks[OF b])
  have "concat (map (\<lambda>i. projr (embed_documents model (take ?b (drop (i * ?b) ?docs))))
           [0..<(length ?docs + ?b - 1) div ?b])
        = concat (map (\<lambda>ds. projr (embed_documents model ds)) (chunks ?b ?docs))"
    unfolding sl[symmetric] by (simp add: comp_def)
  then show ?thesis
    unfolding embed_batches_def Let_def range
    using for_batches_never_fails[OF ok, of df cols ?b _ "[]" no_trace] ib sl
    by (simp add: no_trace_def)
qed


lemma process_batch_fallback_ok:
  assumes "embed_documents model (take b (drop (i * b) (documents df cols))) = Inl e"
      and "\<forall>d \<in> set (take b (drop (i * b) (documents df cols))).
             first_embedding (embed_documents model [d]) = Inr (f d)"
  shows "process_batch model df cols (int b) (int (length (rows df))) (int (i * b)) acc tr
         = (Inr (acc @ map f (take b (drop (i * b) (documents df cols)))),
            tr\<lparr>calls := calls tr @ take b (drop (i * b) (documents df cols))
                     # map (\<lambda>d. [d]) (take b (drop (i * b) (documents df cols)))\<rparr>)"
  using assms(1) embed_one_by_one_ok[OF assms(2)]
  unfolding process_batch_def Let_def batch_documents_chunk by simp

lemma process_batch_result:
  assumes "batch_yields model f (take b (drop (i * b) (documents df cols)))"
  shows "\<exists>tr1. process_batch model df cols (int b) (int (length (rows df))) (int (i * b)) acc tr
               = (Inr (acc @ map f (take b (drop (i * b) (documents df cols)))), tr1)
             \<and> error_log tr1 = error_log tr"
proof -
  let ?B = "take b (drop (i * b) (documents df cols))"
  show ?thesis
  proof (cases "embed_documents model ?B")
    case (Inr vs)
    then have "vs = map f ?B" using assms by (simp add: batch_yields_def)
    then show ?thesis using process_batch_batch_ok[OF Inr] by simp
  next
    case (Inl e)
    then have "\<forall>d \<in> set ?B. first_embedding (embed_documents model [d]) = Inr (f d)"
      using assms by (simp add: batch_yields_def list_all_iff)
    from process_batch_fallback_ok[OF Inl this, of acc tr] show ?thesis by simp
  qed
qed

lemma for_batches_result:
  assumes "\<forall>i \<in> set js. batch_yields model f (take b (drop (i * b) (documents df cols)))"
  shows "\<exists>tr1. for_batches (process_batch model df cols (int b) (int (length (rows df))))
                 (map (\<lambda>i. int (i * b)) js) acc tr
               = (Inr (acc @ concat (map (\<lambda>i. map f (take b (drop (i * b) (documents df cols)))) js)), tr1)
             \<and> error_log tr1 = error_log tr"
  using assms
proof (induction js arbitrary: acc tr)
  case Nil
  show ?case by simp
next
  case (Cons j js)
  obtain tr1 where step:
    "process_batch model df cols (int b) (int (length (rows df))) (int (j * b)) acc tr
       = (Inr (acc @ map f (take b (drop (j * b) (documents df cols)))), tr1)"
    and log: "error_log tr1 = error_log tr"
    using process_batch_result[of model f b j df cols acc tr] Cons.prems by auto
  obtain tr2 where rest:
    "for_batches (process_batch model df cols (int b) (int (length (rows df))))
       (map (\<lambda>i. int (i * b)) js) (acc @ map f (take b (drop (j * b) (documents df cols)))) tr1
     = (Inr ((acc @ map f (take b (drop (j * b) (documents df cols))))
             @ concat (map (\<lambda>i. map f (take b (drop (i * b) (documents df cols)))) js)), tr2)"
    and log2: "error_log tr2 = error_log tr1"
    using Cons.IH[of "acc @ map f (take b (drop (j * b) (documents df cols)))" tr1] Cons.prems
    by auto
  show ?case using step rest log log2 by (simp del: of_nat_mult of_nat_add)
qed

lemma embed_batches_result:
  assumes bs: "0 < get_batch_size model"
      and ok: "list_all (batch_yields model f) (chunks (nat (get_batch_size model)) (documents df cols))"
  shows "\<exists>tr1. embed_batches model df cols = (Inr (map f (documents df cols)), tr1)
             \<and> error_log tr1 = []"
proof -
  let ?b = "nat (get_batch_size model)"
  let ?docs = "documents df cols"
  let ?k = "(length ?docs + ?b - 1) div ?b"
  have b: "0 < ?b" and ib: "get_batch_size model = int ?b" using bs by simp_all
  have len: "length ?docs = length (rows df)" by (simp add: documents_def)
  have range: "py_range 0 (int (length (rows df))) (get_batch_size model)
        = Inr (map (\<lambda>i. int (i * ?b)) [0..<?k])"
    using py_range_pos[OF b, of "length (rows df)"] ib len by simp
  have sl: "map (\<lambda>i. take ?b (drop (i * ?b) ?docs)) [0..<?k] = chunks ?b ?docs"
    by (rule slices_chunks[OF b])
  have "\<forall>i \<in> set [0..<?k]. batch_yields model f (take ?b (drop (i * ?b) ?docs))"
    using ok unfolding sl[symmetric] by (simp add: list_all_iff)
  from for_batches_result[OF this, of "[]" no_trace]
  obtain tr1 where run:
    "for_batches (process_batch model df cols (int ?b) (int (length (rows df))))
       (map (\<lambda>i. int (i * ?b)) [0..<?k]) [] no_trace
     = (Inr (concat (map (\<lambda>i. map f (take ?b (drop (i * ?b) ?docs))) [0..<?k])), tr1)"
    and log: "error_log tr1 = error_log no_trace"
    by auto
  have "concat (map (\<lambda>i. map f (take ?b (drop (i * ?b) ?docs))) [0..<?k])
        = map f (concat (map (\<lambda>i. take ?b (drop (i * ?b) ?docs)) [0..<?k]))"
    by (simp add: map_concat comp_def)
  also have "\<dots> = map f ?docs"
    unfolding sl by (simp add: concat_chunks[OF b])
  finally have vs: "concat (map (\<lambda>i. map f (take ?b (drop (i * ?b) ?docs))) [0..<?k]) = map f ?docs" .
  show ?thesis
    unfolding embed_batches_def Let_def range
    using run log vs ib by (simp add: no_trace_def)
qed

lemma process_batch_completes:
  assumes "batch_completes model (take b (drop (i * b) (documents df cols)))"
  shows "\<exists>acc1 tr1. process_batch model df cols (int b) (int (length (rows df))) (int (i * b)) acc tr
               = (Inr acc1, tr1) \<and> error_log tr1 = error_log tr"
proof -
  let ?B = "take b (drop (i * b) (documents df cols))"
  show ?thesis
  proof (cases "embed_documents model ?B")
    case (Inr vs)
    then show ?thesis using process_batch_batch_ok[OF Inr, of acc tr] by simp
  next
    case (Inl e)
    then have "\<forall>d \<in> set ?B. \<not> isl (first_embedding (embed_documents model [d]))"
      using assms by (simp add: batch_completes_def list_all_iff)
    then have "\<forall>d \<in> set ?B. first_embedding (embed_documents model [d])
                 = Inr (projr (first_embedding (embed_documents model [d])))"
      by simp
    from process_batch_fallback_ok[OF Inl this, of acc tr] show ?thesis by simp
  qed
qed

lemma for_batches_completes:
  assumes "\<forall>i \<in> set js. batch_completes model (take b (drop (i * b) (documents df cols)))"
  shows "\<exists>acc1 tr1. for_batches (process_batch model df cols (int b) (int (length (rows df))))
                 (map (\<lambda>i. int (i * b)) js) acc tr = (Inr acc1, tr1)
             \<and> error_log tr1 = error_log tr"
  using assms
proof (induction js arbitrary: acc tr)
  case Nil
  show ?case by simp
next
  case (Cons j js)
  obtain acc1 tr1 where step:
    "process_batch model df cols (int b) (int (length (rows df))) (int (j * b)) acc tr = (Inr acc1, tr1)"
    and log: "error_log tr1 = error_log tr"
    using process_batch_completes[of model b j df cols acc tr] Cons.prems by auto
  obtain acc2 tr2 where rest:
    "for_batches (process_batch model df cols (int b) (int (length (rows df))))
       (map (\<lambda>i. int (i * b)) js) acc1 tr1 = (Inr acc2, tr2)"
    and log2: "error_log tr2 = error_log tr1"
    using Cons.IH[of acc1 tr1] Cons.prems by auto
  show ?case using step rest log log2 by (simp del: of_nat_mult of_nat_add)
qed

lemma process_batch_fallback_fails:
  assumes "embed_documents model (take b (drop (i * b) (documents df cols))) = Inl e"
      and "take b (drop (i * b) (documents df cols)) = pre @ bad # post"
      and "\<forall>d \<in> set pre. first_embedding (embed_documents model [d]) = Inr (f d)"
      and "first_embedding (embed_documents model [bad]) = Inl msg"
  shows "\<exists>tr1. process_batch model df cols (int b) (int (length (rows df))) (int (i * b)) acc tr
           = (Inl (Exception (''Failed to generate embedding for document. Original error: '' @ msg)), tr1)
         \<and> error_log tr1 = error_log tr @
               [''Error embedding document at index ''
                  @ str_int (int (i * b) + int (length pre)) @ '': '' @ msg]"
proof -
  let ?B = "take b (drop (i * b) (documents df cols))"
  have "embed_one_by_one model (int (i * b)) ?B [] (tr\<lparr>calls := calls tr @ [?B]\<rparr>)
        = (Inl (Exception (''Failed to generate embedding for document. Original error: '' @ msg)),
           (tr\<lparr>calls := calls tr @ [?B]\<rparr>)\<lparr>calls := calls (tr\<lparr>calls := calls tr @ [?B]\<rparr>) @ map (\<lambda>d. [d]) (pre @ [bad]),
               error_log := error_log (tr\<lparr>calls := calls tr @ [?B]\<rparr>) @
                 [''Error embedding document at index ''
                    @ str_int (int (i * b) + int (length ([]::'a list) + length pre)) @ '': '' @ msg]\<rparr>)"
    unfolding assms(2) by (rule embed_one_by_one_fails[OF assms(3,4)])
  then show ?thesis
    using assms(1) unfolding process_batch_def Let_def batch_documents_chunk
    by (simp del: of_nat_mult of_nat_add)
qed

lemma batch_around_index:
  assumes b: "0 < b" and k: "k < length docs"
  shows "take b (drop ((k div b) * b) docs)
         = take (k mod b) (take b (drop ((k div b) * b) docs)) @ docs ! k
             # drop (Suc (k mod b)) (take b (drop ((k div b) * b) docs))"
    and "\<forall>d \<in> set (take (k mod b) (take b (drop ((k div b) * b) docs))).
           \<exists>i. (k div b) * b \<le> i \<and> i < k \<and> d = docs ! i"
proof -
  define j where "j = k div b"
  define r where "r = k mod b"
  let ?B = "take b (drop (j * b) docs)"
  have kk: "j * b + r = k" by (simp add: j_def r_def)
  have r: "r < b" using b by (simp add: r_def)
  have "r < length docs - j * b" using kk k by arith
  then have rl: "r < length ?B" using r by simp
  have nth: "?B ! i = docs ! (j * b + i)" if "i \<le> r" for i
  proof -
    have "i < b" using that r by simp
    moreover have "j * b + i \<le> length docs" using that kk k by arith
    ultimately show ?thesis by (simp add: nth_drop)
  qed
  have "?B ! r = docs ! k" using nth[of r] kk by simp
  then have "?B = take r ?B @ docs ! k # drop (Suc r) ?B"
    using id_take_nth_drop[OF rl] by simp
  then show "take b (drop ((k div b) * b) docs)
         = take (k mod b) (take b (drop ((k div b) * b) docs)) @ docs ! k
             # drop (Suc (k mod b)) (take b (drop ((k div b) * b) docs))"
    unfolding j_def r_def .
  have "\<forall>d \<in> set (take r ?B). \<exists>i. j * b \<le> i \<and> i < k \<and> d = docs ! i"
  proof
    fix d assume "d \<in> set (take r ?B)"
    then obtain i where i: "i < r" and d: "d = take r ?B ! i"
      using rl by (auto simp: in_set_conv_nth)
    have "take r ?B ! i = ?B ! i" using i by (rule nth_take)
    then have "d = docs ! (j * b + i)" using d i nth[of i] by (simp del: take_take)
    moreover have "j * b + i < k" using i kk by arith
    ultimately show "\<exists>i. j * b \<le> i \<and> i < k \<and> d = docs ! i"
      by (intro exI[of _ "j * b + i"]) simp
  qed
  then show "\<forall>d \<in> set (take (k mod b) (take b (drop ((k div b) * b) docs))).
           \<exists>i. (k div b) * b \<le> i \<and> i < k \<and> d = docs ! i"
    unfolding j_def r_def .
qed

lemma embed_batches_document_fails:
  assumes bs: "0 < get_batch_size model"
      and k: "k < length (documents df cols)"
      and earlier: "\<forall>i < k div nat (get_batch_size model).
             batch_completes model
               (take (nat (get_batch_size model)) (drop (i * nat (get_batch_size model)) (documents df cols)))"
      and fails: "isl (embed_documents model
             (take (nat (get_batch_size model))
                (drop ((k div nat (get_batch_size model)) * nat (get_batch_size model)) (documents df cols))))"
      and before: "\<forall>i. (k div nat (get_batch_size model)) * nat (get_batch_size model) \<le> i \<and> i < k \<longrightarrow>
             \<not> isl (first_embedding (embed_documents model [documents df cols ! i]))"
      and bad: "first_embedding (embed_documents model [documents df cols ! k]) = Inl msg"
  shows "\<exists>tr1. embed_batches model df cols
           = (Inl (Exception (''Failed to generate embedding for document. Original error: '' @ msg)), tr1)
         \<and> error_log tr1 = [''Error embedding document at index '' @ str_int (int k) @ '': '' @ msg]"
proof -
  define b where "b = nat (get_batch_size model)"
  let ?docs = "documents df cols"
  define j where "j = k div b"
  let ?K = "(length ?docs + b - 1) div b"
  let ?body = "process_batch model df cols (int b) (int (length (rows df)))"
  let ?B = "take b (drop (j * b) ?docs)"
  let ?pre = "take (k mod b) ?B"
  let ?post = "drop (Suc (k mod b)) ?B"
  let ?err = "Exception (''Failed to generate embedding for document. Original error: '' @ msg)"
  have b: "0 < b" and ib: "get_batch_size model = int b" using bs by (simp_all add: b_def)
  have len: "length ?docs = length (rows df)" by (simp add: documents_def)
  have k': "k < length ?docs" using k .
  have range: "py_range 0 (int (length (rows df))) (get_batch_size model)
        = Inr (map (\<lambda>i. int (i * b)) [0..<?K])"
    using py_range_pos[OF b, of "length (rows df)"] ib len by simp
  have jK: "j < ?K"
  proof -
    have "length ?docs \<le> ?K * b"
    proof -
      have "length ?docs + b - 1 < ?K * b + b"
        using b by (metis add.commute div_mult_mod_eq mod_less_divisor add_less_cancel_left mult.commute nat_add_left_cancel_less)
      then show ?thesis using b by simp
    qed
    moreover have "j * b \<le> k" by (simp add: j_def)
    ultimately have "j * b < ?K * b" using k' by linarith
    then show ?thesis by simp
  qed
  have split: "[0..<?K] = [0..<j] @ j # [Suc j..<?K]"
  proof -
    have "[0..<j + (?K - j)] = [0..<j] @ [j..<j + (?K - j)]"
      by (rule upt_add_eq_append) simp
    moreover have "j + (?K - j) = ?K" using jK by simp
    ultimately have "[0..<?K] = [0..<j] @ [j..<?K]" by simp
    then show ?thesis using upt_conv_Cons[OF jK] by simp
  qed
  have "\<forall>i \<in> set [0..<j]. batch_completes model (take b (drop (i * b) (documents df cols)))"
    using earlier by (simp add: b_def j_def)
  from for_batches_completes[OF this, of "[]" no_trace]
  obtain acc1 tr1 where first:
    "for_batches ?body (map (\<lambda>i. int (i * b)) [0..<j]) [] no_trace = (Inr acc1, tr1)"
    and log1: "error_log tr1 = error_log no_trace"
    by auto
  have fails': "isl (embed_documents model ?B)"
    using fails unfolding b_def[symmetric] j_def[symmetric] .
  then have e: "embed_documents model ?B = Inl (projl (embed_documents model ?B))"
    by simp
  have parts: "?B = ?pre @ ?docs ! k # ?post"
    unfolding j_def by (rule batch_around_index(1)[OF b k'])
  have before': "\<not> isl (first_embedding (embed_documents model [?docs ! i]))"
    if "j * b \<le> i" "i < k" for i
    using before[unfolded b_def[symmetric] j_def[symmetric], rule_format, of i] that
    by simp
  have "\<not> isl (first_embedding (embed_documents model [d]))" if "d \<in> set ?pre" for d
  proof -
    have "d \<in> set (take (k mod b) (take b (drop ((k div b) * b) ?docs)))"
      using that unfolding j_def .
    from batch_around_index(2)[OF b k', rule_format, OF this]
    obtain i where "j * b \<le> i" "i < k" "d = ?docs ! i"
      unfolding j_def by blast
    then show ?thesis using before' by simp
  qed
  then have pre: "\<forall>d \<in> set ?pre. first_embedding (embed_documents model [d])
                 = Inr (projr (first_embedding (embed_documents model [d])))"
    by simp
  have bad': "first_embedding (embed_documents model [?docs ! k]) = Inl msg"
    using bad .
  have lenpre: "int (j * b) + int (length ?pre) = int k"
  proof -
    have "k mod b < b" using b by simp
    moreover have "j * b + k mod b = k" by (simp add: j_def)
    then have "k mod b < length ?docs - j * b" using k' by arith
    ultimately have "length ?pre = k mod b" by simp
    then show ?thesis by (simp add: j_def flip: of_nat_add of_nat_mult)
  qed
  from process_batch_fallback_fails[OF e parts pre bad', of acc1 tr1]
  obtain tr2 where step: "?body (int (j * b)) acc1 tr1 = (Inl ?err, tr2)"
    and log2: "error_log tr2 = error_log tr1 @
       [''Error embedding document at index '' @ str_int (int (j * b) + int (length ?pre)) @ '': '' @ msg]"
    by auto
  have "for_batches ?body (map (\<lambda>i. int (i * b)) [0..<?K]) [] no_trace = (Inl ?err, tr2)"
    unfolding split map_append for_batches_append first using step
    by (simp del: of_nat_mult of_nat_add)
  then have "embed_batches model df cols = (Inl ?err, tr2)"
    unfolding embed_batches_def Let_def range using ib len
    by simp
  moreover have "error_log tr2 = [''Error embedding document at index '' @ str_int (int k) @ '': '' @ msg]"
    using log2 log1 lenpre by (simp add: no_trace_def)
  ultimately show ?thesis by blast
qed

lemma predict_reaches_loop:
  assumes "json_get store ''args'' = JDict stored"
      and "construct_model_from_args env stored = (user_args, Inr model)"
      and "map_of user_args ''target'' = Some target"
      and "resolve_input_columns (map_of user_args ''input_columns'')
             (map strip_backticks (columns df)) = Inr input_columns"
      and "list_all (\<lambda>col. col \<in> set (map strip_backticks (columns df))) input_columns"
  shows "predict env store df =
           (case embed_batches model (df\<lparr>columns := map strip_backticks (columns df)\<rparr>) input_columns of
              (Inl e, tr) \<Rightarrow> raised e (df\<lparr>columns := map strip_backticks (columns df)\<rparr>) tr
            | (Inr all_embeddings, tr) \<Rightarrow>
                \<lparr>result = assign target all_embeddings (df\<lparr>columns := map strip_backticks (columns df)\<rparr>),
                 caller_df = df\<lparr>columns := map strip_backticks (columns df)\<rparr>, events = tr\<rparr>)"
  using assms by (simp add: predict_def Let_def)

subsection \<open>Serialization\<close>

lemma py_join_Cons: "py_join sep (x # xs) = x @ concat (map (\<lambda>y. sep @ y) xs)"
  by (induction xs arbitrary: x) simp_all

lemma py_join_newline_joined: "py_join [newline] ls = newline_joined ls"
  by (cases ls) (simp_all add: py_join_Cons)

lemma row_to_document_lines:
  "row_to_document (series_of m) = newline_joined (map document_line m)"
proof -
  have "map (\<lambda>(field, v). field @ '': '' @ py_str v) (zip (map fst m) (map snd m))
        = map document_line m"
    by (induction m) (auto simp: document_line_def)
  then show ?thesis
    by (simp add: row_to_document_def series_of_def py_join_newline_joined)
qed

lemma str_nat_1: "str_nat (Suc 0) = ''1''"
  by (subst str_nat.simps) (simp add: digit_char_def)

text \<open>
  C8: the row serializer is a total function of the row alone; for every row, given as an
  ordered column-to-value mapping, it returns the newline-joined lines
  \<^verbatim>\<open><column>: <value>\<close> in the row's column order, and the row \<^verbatim>\<open>{"a": 1, "b": "x"}\<close>
  is serialized to the document \<^verbatim>\<open>a: 1\nb: x\<close>.
\<close>

theorem row_to_document_spec:
  "row_to_document (series_of m) = spec_document m \<and>
   row_to_document (series_of [(''a'', VInt 1), (''b'', VStr ''x'')])
     = ''a: 1'' @ [CHR 0x0A] @ ''b: x''"
  by (simp add: row_to_document_lines spec_document_def document_line_def
      str_int_def str_nat_1 newline_def)

subsection \<open>Model construction\<close>

lemma construct_success_elim:
  assumes "construct_model_from_args env args = (args1, Inr model)"
  obtains given MODEL_CLASS where
    "(case map_of args ''class'' of None \<Rightarrow> JStr DEFAULT_EMBEDDING_CLASS | Some c \<Rightarrow> c) = JStr given"
    "get_langchain_class env (resolve_alias env given) = Inr MODEL_CLASS"
    "init MODEL_CLASS
       (if is_base_model MODEL_CLASS
        then filter (\<lambda>(k, v). k \<in> set (model_fields MODEL_CLASS))
               (AList.delete ''class'' (AList.delete ''target'' args))
        else AList.delete ''class'' (AList.delete ''target'' args)) = Inr model"
    "args1 = AList.update ''class'' (JStr (resolve_alias env given))
       (if (case map_of args ''target'' of None \<Rightarrow> JNone | Some t \<Rightarrow> t) \<noteq> JNone
        then AList.update ''target'' (case map_of args ''target'' of None \<Rightarrow> JNone | Some t \<Rightarrow> t)
               (AList.delete ''class'' (AList.delete ''target'' args))
        else AList.delete ''class'' (AList.delete ''target'' args))"
proof -
  let ?cls = "case map_of args ''class'' of None \<Rightarrow> JStr DEFAULT_EMBEDDING_CLASS | Some c \<Rightarrow> c"
  have cls: "(case map_of (AList.delete ''target'' args) ''class'' of
               None \<Rightarrow> JStr DEFAULT_EMBEDDING_CLASS | Some c \<Rightarrow> c) = ?cls"
    by simp
  obtain given where given: "?cls = JStr given"
    using assms unfolding construct_model_from_args_def Let_def cls
    by (cases ?cls) simp_all
  obtain MODEL_CLASS where mc: "get_langchain_class env (resolve_alias env given) = Inr MODEL_CLASS"
    using assms unfolding construct_model_from_args_def Let_def cls given
    by (cases "get_langchain_class env (resolve_alias env given)") simp_all
  show ?thesis
  proof (rule that[OF given mc])
    show "init MODEL_CLASS
       (if is_base_model MODEL_CLASS
        then filter (\<lambda>(k, v). k \<in> set (model_fields MODEL_CLASS))
               (AList.delete ''class'' (AList.delete ''target'' args))
        else AList.delete ''class'' (AList.delete ''target'' args)) = Inr model"
      using assms unfolding construct_model_from_args_def Let_def cls given
      by (cases "is_base_model MODEL_CLASS") (simp_all add: mc split: sum.splits)
    show "args1 = AList.update ''class'' (JStr (resolve_alias env given))
       (if (case map_of args ''target'' of None \<Rightarrow> JNone | Some t \<Rightarrow> t) \<noteq> JNone
        then AList.update ''target'' (case map_of args ''target'' of None \<Rightarrow> JNone | Some t \<Rightarrow> t)
               (AList.delete ''class'' (AList.delete ''target'' args))
        else AList.delete ''class'' (AList.delete ''target'' args))"
      using assms unfolding construct_model_from_args_def Let_def cls given
      by (cases "is_base_model MODEL_CLASS") (auto simp: mc split: sum.splits if_splits)
  qed
qed

lemma construct_failure:
  assumes "construct_model_from_args env args = (args1, Inl e)"
  shows "args1 = AList.delete ''class'' (AList.delete ''target'' args)"
  using assms unfolding construct_model_from_args_def Let_def
  by (simp split: json.splits sum.splits)

lemma resolve_alias_closed:
  assumes "alias_closed env"
  shows "resolve_alias env (resolve_alias env given) = resolve_alias env given"
proof (cases "map_of (EMBEDDING_MODELS env) given")
  case None
  then show ?thesis by (simp add: resolve_alias_def)
next
  case (Some name)
  then have "(given, name) \<in> set (EMBEDDING_MODELS env)" by (rule map_of_SomeD)
  then have "resolve_alias env name = name"
    using assms by (auto simp: alias_closed_def list_all_iff)
  moreover have "resolve_alias env given = name" using Some by (simp add: resolve_alias_def)
  ultimately show ?thesis by simp
qed

lemma construct_success_intro:
  assumes "(case map_of args ''class'' of None \<Rightarrow> JStr DEFAULT_EMBEDDING_CLASS | Some c \<Rightarrow> c) = JStr given"
      and "get_langchain_class env (resolve_alias env given) = Inr MODEL_CLASS"
      and "init MODEL_CLASS
       (if is_base_model MODEL_CLASS
        then filter (\<lambda>(k, v). k \<in> set (model_fields MODEL_CLASS))
               (AList.delete ''class'' (AList.delete ''target'' args))
        else AList.delete ''class'' (AList.delete ''target'' args)) = Inr model"
  shows "construct_model_from_args env args
     = (AList.update ''class'' (JStr (resolve_alias env given))
       (if (case map_of args ''target'' of None \<Rightarrow> JNone | Some t \<Rightarrow> t) \<noteq> JNone
        then AList.update ''target'' (case map_of args ''target'' of None \<Rightarrow> JNone | Some t \<Rightarrow> t)
               (AList.delete ''class'' (AList.delete ''target'' args))
        else AList.delete ''class'' (AList.delete ''target'' args)), Inr model)"
proof -
  have cls: "(case map_of (AList.delete ''target'' args) ''class'' of
               None \<Rightarrow> JStr DEFAULT_EMBEDDING_CLASS | Some c \<Rightarrow> c) = JStr given"
    using assms(1) by simp
  show ?thesis
    unfolding construct_model_from_args_def Let_def cls
    using assms(2,3) by (cases "is_base_model MODEL_CLASS") simp_all
qed

lemma register_class_map_of:
  "map_of (register_class reg n) k = (if k \<in> set (aliases_of n) then Some n else map_of reg k)"
  by (simp add: register_class_def aliases_of_def Let_def update_conv')

lemma registry_entry:
  "map_of (foldl register_class reg names) k = Some v \<Longrightarrow>
     map_of reg k = Some v \<or> (v \<in> set names \<and> k \<in> set (aliases_of v))"
proof (induction names arbitrary: reg)
  case Nil
  then show ?case by simp
next
  case (Cons n names)
  from Cons.IH[of "register_class reg n"] Cons.prems
  have "map_of (register_class reg n) k = Some v \<or> (v \<in> set names \<and> k \<in> set (aliases_of v))"
    by simp
  then show ?case
    by (auto simp: register_class_map_of split: if_splits)
qed

lemma registry_distinct:
  "distinct (map fst reg) \<Longrightarrow> distinct (map fst (foldl register_class reg names))"
  by (induction names arbitrary: reg) (simp_all add: register_class_def Let_def distinct_update)

lemma well_named_alias_closed:
  assumes "well_named (community_embeddings env)"
  shows "alias_closed env"
proof -
  let ?names = "community_embeddings env"
  let ?EM = "EMBEDDING_MODELS env"
  have h1: "v = z" if "z \<in> set ?names" "v \<in> set ?names \<or> v = ''VLLMEmbeddings'' \<or> v = ''FastAPIEmbeddings''"
      "v \<in> set (aliases_of z)" for v z
    using assms that by (auto simp: well_named_def list_all_iff)
  have h2: "v \<notin> fst ` set builtin_models" if "v \<in> set ?names" for v
    using assms that by (auto simp: well_named_def list_all_iff)
  have entry: "map_of builtin_models k = Some v \<or> (v \<in> set ?names \<and> k \<in> set (aliases_of v))"
    if "map_of ?EM k = Some v" for k v
    using that unfolding EMBEDDING_MODELS_def by (rule registry_entry)
  have vals: "v \<in> set ?names \<or> v = ''VLLMEmbeddings'' \<or> v = ''FastAPIEmbeddings''"
    if "map_of ?EM k = Some v" for k v
    using entry[OF that] by (auto simp: builtin_models_def split: if_splits)
  have dist: "distinct (map fst ?EM)"
    unfolding EMBEDDING_MODELS_def by (rule registry_distinct) (simp add: builtin_models_def)
  have "resolve_alias env name = name" if "(al, name) \<in> set ?EM" for al name
  proof (cases "map_of ?EM name")
    case None
    then show ?thesis by (simp add: resolve_alias_def)
  next
    case (Some z)
    have "map_of ?EM al = Some name" using dist that by simp
    then have name: "name \<in> set ?names \<or> name = ''VLLMEmbeddings'' \<or> name = ''FastAPIEmbeddings''"
      by (rule vals)
    from entry[OF Some] have "z = name"
    proof
      assume b: "map_of builtin_models name = Some z"
      then have "name \<in> fst ` set builtin_models" by (metis map_of_SomeD fst_conv image_eqI)
      then have "name \<notin> set ?names" using h2 by blast
      then have "name = ''VLLMEmbeddings'' \<or> name = ''FastAPIEmbeddings''" using name by simp
      then show ?thesis using b by (auto simp: builtin_models_def)
    next
      assume "z \<in> set ?names \<and> name \<in> set (aliases_of z)"
      then show ?thesis using h1[of z name] name by simp
    qed
    then show ?thesis using Some by (simp add: resolve_alias_def)
  qed
  then show ?thesis by (auto simp: alias_closed_def list_all_iff)
qed

subsection \<open>The small installation, evaluated\<close>

lemma example_registry:
  "EMBEDDING_MODELS (example_env e bs) =
     [(''VLLM'', ''VLLMEmbeddings''), (''vllm'', ''VLLMEmbeddings''),
      (''FastAPI'', ''FastAPIEmbeddings''), (''fastapi'', ''FastAPIEmbeddings''),
      (''OpenAI'', ''OpenAIEmbeddings''), (''openai'', ''OpenAIEmbeddings''),
      (''Fake'', ''FakeEmbeddings''), (''fake'', ''FakeEmbeddings'')]"
  by (simp add: EMBEDDING_MODELS_def example_env_def builtin_models_def register_class_def
      py_lower_def lower_char_def)

lemma example_env_fields:
  "VLLMEmbeddings (example_env e bs) = example_class e bs"
  "FastAPIEmbeddings (example_env e bs) = example_class e bs"
  "community_getattr (example_env e bs) name =
     (if name = ''OpenAIEmbeddings'' \<or> name = ''FakeEmbeddings''
      then Some (example_class e bs) else None)"
  by (simp_all add: example_env_def)

lemma example_resolve:
  "resolve_alias (example_env e bs) ''VLLMEmbeddings'' = ''VLLMEmbeddings''"
  "resolve_alias (example_env e bs) ''VLLM'' = ''VLLMEmbeddings''"
  "resolve_alias (example_env e bs) ''openai'' = ''OpenAIEmbeddings''"
  "resolve_alias (example_env e bs) ''NoSuchClass'' = ''NoSuchClass''"
  by (simp_all add: resolve_alias_def example_registry)

lemma example_construct:
  "construct_model_from_args (example_env e bs) example_args
     = (example_args, Inr (example_model e bs))"
  by (simp add: construct_model_from_args_def example_args_def example_resolve
      get_langchain_class_def example_env_fields example_class_def)

lemma example_stored: "json_get example_store ''args'' = JDict example_args"
  by (simp add: json_get_def example_store_def json_set_def)

lemma example_columns: "map strip_backticks (columns example_df) = [''a'', ''b'']"
  by (simp add: example_df_def strip_backticks_def backtick_def)

lemma str_nat_22: "str_nat 22 = ''22''"
  by (simp add: str_nat.simps[of 22] str_nat.simps[of 2] digit_char_def)

lemma str_nat_333: "str_nat 333 = ''333''"
  by (simp add: str_nat.simps[of 333] str_nat.simps[of 33] str_nat.simps[of 3] digit_char_def)

lemma example_documents:
  "documents (example_df\<lparr>columns := [''a'', ''b'']\<rparr>) [''a'', ''b'']
     = [''a: 1'' @ [newline] @ ''b: x'', ''a: 22'' @ [newline] @ ''b: y'',
        ''a: 333'' @ [newline] @ ''b: z'']"
  by (simp add: documents_def example_df_def select_columns_def row_to_document_def
      str_int_def str_nat_1 str_nat_22 str_nat_333)

lemma chunks_2_of_3: "chunks 2 [x, y, z] = [[x, y], [z]]"
  by (simp add: chunks.simps[of 2 "[x, y, z]"] chunks.simps[of 2 "[z]"] chunks.simps[of 2 "[]"])


lemma example_resolve_columns:
  "resolve_input_columns (map_of example_args ''input_columns'') [''a'', ''b''] = Inr [''a'', ''b'']"
  by (simp add: resolve_input_columns_def example_args_def)

lemma example_target: "map_of example_args ''target'' = Some (JStr ''emb'')"
  by (simp add: example_args_def)

lemma str_nat_0: "str_nat 0 = ''0''"
  by (subst str_nat.simps) (simp add: digit_char_def)

lemma example_documents_named:
  "documents (example_df\<lparr>columns := map strip_backticks (columns example_df)\<rparr>) [''a'', ''b'']
     = [example_doc_x, example_doc_y, example_doc_z]"
  by (simp add: example_columns example_documents example_doc_x_def example_doc_y_def
      example_doc_z_def)

lemma example_docs_distinct:
  "example_doc_x \<noteq> example_doc_y" "example_doc_y \<noteq> example_doc_x"
  by (simp_all add: example_doc_x_def example_doc_y_def)

lemma example_prepared:
  "resolve_input_columns (map_of example_args ''input_columns'')
     (map strip_backticks (columns example_df)) = Inr [''a'', ''b'']"
  "list_all (\<lambda>col. col \<in> set (map strip_backticks (columns example_df))) [''a'', ''b'']"
  by (simp_all add: example_columns example_resolve_columns)

lemma example_model_fields:
  "embed_documents (example_model e bs) = e"
  "batch_size (example_model e bs) = bs"
  by (simp_all add: example_model_def)

lemma example_picky_run:
  assumes "k < 2" and "bad = [example_doc_x, example_doc_y] ! k"
  shows "result (predict (example_env (picky_backend bad) (Some 2)) example_store example_df)
           = Inl (Exception ''Failed to generate embedding for document. Original error: boom'') \<and>
         error_log (events (predict (example_env (picky_backend bad) (Some 2)) example_store example_df))
           = [''Error embedding document at index '' @ str_int (int k) @ '': boom'']"
proof -
  let ?model = "example_model (picky_backend bad) (Some 2)"
  let ?df1 = "example_df\<lparr>columns := map strip_backticks (columns example_df)\<rparr>"
  have bs: "0 < get_batch_size ?model" and b: "nat (get_batch_size ?model) = 2"
    by (simp_all add: get_batch_size_def example_model_def)
  have k: "k = 0 \<or> k = 1" using assms(1) by arith
  have kl: "k < length (documents ?df1 [''a'', ''b''])"
    using assms(1) by (simp add: example_documents_named)
  have div: "k div 2 = 0" using assms(1) by simp
  have earlier: "\<forall>i < k div nat (get_batch_size ?model).
      batch_completes ?model (take (nat (get_batch_size ?model))
        (drop (i * nat (get_batch_size ?model)) (documents ?df1 [''a'', ''b''])))"
    by (simp add: b div)
  have fails: "isl (embed_documents ?model (take (nat (get_batch_size ?model))
      (drop ((k div nat (get_batch_size ?model)) * nat (get_batch_size ?model))
         (documents ?df1 [''a'', ''b'']))))"
    by (simp add: b div example_documents_named example_model_fields picky_backend_def)
  have before: "\<forall>i. (k div nat (get_batch_size ?model)) * nat (get_batch_size ?model) \<le> i \<and> i < k \<longrightarrow>
      \<not> isl (first_embedding (embed_documents ?model [documents ?df1 [''a'', ''b''] ! i]))"
    using k assms(2)
    by (auto simp: b example_documents_named example_model_fields picky_backend_def
        first_embedding_def example_docs_distinct)
  have bad: "first_embedding (embed_documents ?model [documents ?df1 [''a'', ''b''] ! k]) = Inl ''boom''"
    using k assms(2)
    by (auto simp: example_documents_named example_model_fields picky_backend_def first_embedding_def)
  obtain tr1 where run: "embed_batches ?model ?df1 [''a'', ''b'']
      = (Inl (Exception (''Failed to generate embedding for document. Original error: '' @ ''boom'')), tr1)"
    and log: "error_log tr1 = [''Error embedding document at index '' @ str_int (int k) @ '': '' @ ''boom'']"
    using embed_batches_document_fails[OF bs kl earlier fails before bad] by blast
  show ?thesis
    using predict_reaches_loop[OF example_stored example_construct example_target example_prepared]
      run log
    by (simp add: raised_def)
qed

lemma stored_construct:
  "construct_model_from_args (example_env e bs) (stored_args cols t)
     = (stored_args cols t, Inr (example_model e bs))"
  by (simp add: construct_model_from_args_def stored_args_def example_resolve
      get_langchain_class_def example_env_fields example_class_def)

lemma stored_get: "json_get (store_with args) ''args'' = JDict args"
  by (simp add: json_get_def store_with_def json_set_def)

lemma stored_lookup:
  "map_of (stored_args cols t) ''target'' = Some (JStr t)"
  "map_of (stored_args cols t) ''input_columns'' = Some (JList cols)"
  by (simp_all add: stored_args_def)

lemma str_nat_2: "str_nat 2 = ''2''"
  by (subst str_nat.simps) (simp add: digit_char_def)

lemma str_nat_3: "str_nat 3 = ''3''"
  by (subst str_nat.simps) (simp add: digit_char_def)

lemma target_df_columns: "map strip_backticks (columns target_df) = [''a'', ''b'', ''target'']"
  by (simp add: target_df_def strip_backticks_def backtick_def)

lemma target_df_documents:
  "documents (target_df\<lparr>columns := [''a'', ''b'', ''target'']\<rparr>) [''a'', ''b'', ''target'']
     = [''a: 1'' @ [newline] @ ''b: 2'' @ [newline] @ ''target: 3'']"
  by (simp add: documents_def target_df_def select_columns_def row_to_document_def
      str_int_def str_nat_1 str_nat_2 str_nat_3)

lemma chunks_single: "0 < b \<Longrightarrow> chunks b [x] = [[x]]"
  by (simp add: chunks.simps[of b "[x]"] chunks.simps[of b "[]"])

lemma example_well_named: "well_named (community_embeddings (example_env e bs))"
  by (simp add: well_named_def example_env_def aliases_of_def builtin_models_def py_lower_def
      lower_char_def)

lemma example_alias_closed: "alias_closed (example_env e bs)"
  by (simp add: alias_closed_def example_registry resolve_alias_def)

lemma alias_construct:
  "construct_model_from_args (example_env e bs) alias_args
     = (resolved_args, Inr (example_model e bs))"
  by (simp add: construct_model_from_args_def alias_args_def resolved_args_def example_resolve
      get_langchain_class_def example_env_fields example_class_def)

lemma unknown_construct:
  "construct_model_from_args (example_env e bs) unknown_args
     = ([], Inl (Exception (''Could not find the class NoSuchClass''
          @ '' in langchain_community.embeddings. Please check the class name.'')))"
  by (simp add: construct_model_from_args_def unknown_args_def example_resolve
      get_langchain_class_def example_env_fields)

lemma create_example:
  "create (example_env e bs) store (Some ''emb'') None create_args
     = (Inr (), json_set store ''args'' (JDict created_args))"
  by (simp add: create_def create_args_def created_args_def construct_model_from_args_def
      example_resolve get_langchain_class_def example_env_fields example_class_def)

text \<open>
  At creation, with a training frame and no explicit list, the input columns are inferred
  without the target column.
\<close>

lemma create_infers_input_columns:
  "create (example_env e bs) store (Some ''target'') (Some target_df) create_args
     = (Inr (),
        json_set store ''args''
          (JDict [(''input_columns'', JList [''a'', ''b'']), (''class'', JStr ''VLLMEmbeddings''),
                  (''target'', JStr ''target'')]))"
  by (simp add: create_def create_args_def construct_model_from_args_def target_df_def
      startswith_def strip_backticks_def backtick_def
      example_resolve get_langchain_class_def example_env_fields example_class_def)

subsection \<open>Claims about prediction\<close>



text \<open>
  C2: when the call on a batch raises but every document of that batch embeds alone, the
  frame \<^verbatim>\<open>predict\<close> returns is the one of the run in which every batch call succeeds
  (same vectors, same order), and nothing is raised or written to the error log. The
  two runs use models with the same batch size that answer with the same vector for the
  same document.
\<close>

theorem predict_batch_failure_invisible:
  assumes "json_get store ''args'' = JDict stored"
      and "construct_model_from_args env stored = (user_args, Inr model)"
      and "construct_model_from_args env' stored = (user_args, Inr model')"
      and "map_of user_args ''target'' = Some (JStr target)"
      and "resolve_input_columns (map_of user_args ''input_columns'')
             (map strip_backticks (columns df)) = Inr input_columns"
      and "list_all (\<lambda>col. col \<in> set (map strip_backticks (columns df))) input_columns"
      and "0 < get_batch_size model"
      and "get_batch_size model' = get_batch_size model"
      and "\<forall>ds. embed_documents model' ds = Inr (map f ds)"
      and "\<forall>ds vs. embed_documents model ds = Inr vs \<longrightarrow> vs = map f ds"
      and "\<forall>batch \<in> set (chunks (nat (get_batch_size model))
               (documents (df\<lparr>columns := map strip_backticks (columns df)\<rparr>) input_columns)).
             isl (embed_documents model batch) \<longrightarrow>
             (\<forall>d \<in> set batch. \<not> isl (embed_documents model [d]))"
  shows "result (predict env store df) = result (predict env' store df) \<and>
         result (predict env store df)
           = assign (JStr target)
               (map f (documents (df\<lparr>columns := map strip_backticks (columns df)\<rparr>) input_columns))
               (df\<lparr>columns := map strip_backticks (columns df)\<rparr>) \<and>
         \<not> isl (result (predict env store df)) \<and>
         error_log (events (predict env store df)) = []"
proof -
  let ?df1 = "df\<lparr>columns := map strip_backticks (columns df)\<rparr>"
  let ?docs = "documents ?df1 input_columns"
  let ?b = "nat (get_batch_size model)"
  have single: "first_embedding (embed_documents model [d]) = Inr (f d)"
    if "\<not> isl (embed_documents model [d])" for d
  proof (cases "embed_documents model [d]")
    case (Inl e)
    then show ?thesis using that by simp
  next
    case (Inr vs)
    have "vs = map f [d]" by (rule assms(10)[rule_format, OF Inr])
    then show ?thesis unfolding Inr first_embedding_def by simp
  qed
  have yields: "batch_yields model f batch" if "batch \<in> set (chunks ?b ?docs)" for batch
  proof (cases "embed_documents model batch")
    case (Inr vs)
    have "vs = map f batch" by (rule assms(10)[rule_format, OF Inr])
    then show ?thesis using Inr by (simp add: batch_yields_def)
  next
    case (Inl e)
    then have failed: "isl (embed_documents model batch)" by simp
    have "\<forall>d \<in> set batch. \<not> isl (embed_documents model [d])"
      using assms(11) that failed by (simp add: Ball_def)
    then have "\<forall>d \<in> set batch. first_embedding (embed_documents model [d]) = Inr (f d)"
      using single by simp
    then show ?thesis using Inl by (simp add: batch_yields_def list_all_iff)
  qed
  then have ok: "list_all (batch_yields model f) (chunks ?b ?docs)"
    by (simp add: list_all_iff)
  have ok': "list_all (batch_yields model' f) (chunks (nat (get_batch_size model')) ?docs)"
    using assms(9) by (simp add: list_all_iff batch_yields_def)
  obtain tr1 where run: "embed_batches model ?df1 input_columns = (Inr (map f ?docs), tr1)"
    and log: "error_log tr1 = []"
    using embed_batches_result[OF assms(7) ok] by auto
  have bs': "0 < get_batch_size model'" using assms(7,8) by simp
  obtain tr2 where run': "embed_batches model' ?df1 input_columns = (Inr (map f ?docs), tr2)"
    using embed_batches_result[OF bs' ok'] by auto
  have p: "predict env store df
           = \<lparr>result = assign (JStr target) (map f ?docs) ?df1, caller_df = ?df1, events = tr1\<rparr>"
    using predict_reaches_loop[OF assms(1,2,4,5,6)] run by simp
  have p': "predict env' store df
           = \<lparr>result = assign (JStr target) (map f ?docs) ?df1, caller_df = ?df1, events = tr2\<rparr>"
    using predict_reaches_loop[OF assms(1,3,4,5,6)] run' by simp
  have "\<not> isl (assign (JStr target) (map f ?docs) ?df1)"
    by (simp add: assign_def documents_def)
  then show ?thesis using p p' log by simp
qed

theorem predict_batch_failure_invisible_witness:
  "isl (embed_documents (example_model single_backend (Some 2))
          [''a: 1'' @ [newline] @ ''b: x'', ''a: 22'' @ [newline] @ ''b: y'']) \<and>
   result (predict (example_env single_backend (Some 2)) example_store example_df)
     = result (predict (example_env length_backend (Some 2)) example_store example_df) \<and>
   result (predict (example_env single_backend (Some 2)) example_store example_df)
     = Inr \<lparr>columns = [''a'', ''b'', ''emb''],
            rows = [[Val (VInt 1), Val (VStr ''x''), Vec 9],
                    [Val (VInt 22), Val (VStr ''y''), Vec 10],
                    [Val (VInt 333), Val (VStr ''z''), Vec 11]]\<rparr>"
proof -
  let ?model = "example_model single_backend (Some 2)"
  let ?model' = "example_model length_backend (Some 2)"
  have h4: "resolve_input_columns (map_of example_args ''input_columns'')
              (map strip_backticks (columns example_df)) = Inr [''a'', ''b'']"
    by (simp add: example_columns example_resolve_columns)
  have h5: "list_all (\<lambda>col. col \<in> set (map strip_backticks (columns example_df))) [''a'', ''b'']"
    by (simp add: example_columns)
  have h7: "0 < get_batch_size ?model"
    by (simp add: get_batch_size_def example_model_def)
  have h8: "get_batch_size ?model' = get_batch_size ?model"
    by (simp add: get_batch_size_def example_model_def)
  have h9: "\<forall>ds. embed_documents ?model' ds = Inr (map length ds)"
    by (simp add: example_model_def length_backend_def)
  have h10: "\<forall>ds vs. embed_documents ?model ds = Inr vs \<longrightarrow> vs = map length ds"
    by (simp add: example_model_def single_backend_def)
  have b: "nat (get_batch_size ?model) = 2"
    by (simp add: get_batch_size_def example_model_def)
  have h11: "\<forall>batch \<in> set (chunks (nat (get_batch_size ?model))
               (documents (example_df\<lparr>columns := map strip_backticks (columns example_df)\<rparr>)
                  [''a'', ''b''])).
             isl (embed_documents ?model batch) \<longrightarrow>
             (\<forall>d \<in> set batch. \<not> isl (embed_documents ?model [d]))"
    by (simp add: b example_columns example_documents chunks_2_of_3 example_model_def
        single_backend_def)
  have rows: "rows (example_df\<lparr>columns := [''a'', ''b'']\<rparr>)
              = [[VInt 1, VStr ''x''], [VInt 22, VStr ''y''], [VInt 333, VStr ''z'']]"
    by (simp add: example_df_def)
  have failing: "isl (embed_documents ?model
          [''a: 1'' @ [newline] @ ''b: x'', ''a: 22'' @ [newline] @ ''b: y''])"
    by (simp add: example_model_def single_backend_def)
  note t = predict_batch_failure_invisible[OF example_stored example_construct example_construct
        example_target h4 h5 h7 h8 h9 h10 h11]
  have r: "result (predict (example_env single_backend (Some 2)) example_store example_df)
     = Inr \<lparr>columns = [''a'', ''b'', ''emb''],
            rows = [[Val (VInt 1), Val (VStr ''x''), Vec 9],
                    [Val (VInt 22), Val (VStr ''y''), Vec 10],
                    [Val (VInt 333), Val (VStr ''z''), Vec 11]]\<rparr>"
    using t[THEN conjunct2, THEN conjunct1]
    by (simp add: example_columns example_documents assign_def rows eval_nat_numeral)
  have eq: "result (predict (example_env single_backend (Some 2)) example_store example_df)
     = result (predict (example_env length_backend (Some 2)) example_store example_df)"
    by (rule t[THEN conjunct1])
  show ?thesis using failing r eq by blast
qed

text \<open>
  C3, as the code has it: when the document of global row index \<open>k\<close> fails in the
  per-document fallback (the batches before its batch complete, the call on its batch
  raises, the documents before it in the batch embed alone, and it does not),
  \<^verbatim>\<open>predict\<close> raises an exception whose message wraps the text of the originating error
  and returns no vectors. The row index \<open>k\<close> is written to the error log; the exception
  does not carry it.
\<close>

theorem predict_document_failure:
  fixes model :: "'v embeddings" and df :: "pyval dataframe" and input_columns :: "string list"
    and b :: nat and docs :: "string list"
  defines "b \<equiv> nat (get_batch_size model)"
      and "docs \<equiv> documents (df\<lparr>columns := map strip_backticks (columns df)\<rparr>) input_columns"
  assumes "json_get store ''args'' = JDict stored"
      and "construct_model_from_args env stored = (user_args, Inr model)"
      and "map_of user_args ''target'' = Some target"
      and "resolve_input_columns (map_of user_args ''input_columns'')
             (map strip_backticks (columns df)) = Inr input_columns"
      and "list_all (\<lambda>col. col \<in> set (map strip_backticks (columns df))) input_columns"
      and "0 < get_batch_size model"
      and "k < length docs"
      and "\<forall>i < k div b. batch_completes model (take b (drop (i * b) docs))"
      and "isl (embed_documents model (take b (drop ((k div b) * b) docs)))"
      and "\<forall>i. (k div b) * b \<le> i \<and> i < k \<longrightarrow>
             \<not> isl (first_embedding (embed_documents model [docs ! i]))"
      and "first_embedding (embed_documents model [docs ! k]) = Inl msg"
  shows "result (predict env store df)
           = Inl (Exception (''Failed to generate embedding for document. Original error: '' @ msg)) \<and>
         error_log (events (predict env store df))
           = [''Error embedding document at index '' @ str_int (int k) @ '': '' @ msg]"
proof -
  let ?df1 = "df\<lparr>columns := map strip_backticks (columns df)\<rparr>"
  obtain tr1 where run: "embed_batches model ?df1 input_columns
           = (Inl (Exception (''Failed to generate embedding for document. Original error: '' @ msg)), tr1)"
    and log: "error_log tr1 = [''Error embedding document at index '' @ str_int (int k) @ '': '' @ msg]"
    using embed_batches_document_fails[OF assms(8), of k ?df1 input_columns msg]
      assms(9-13) unfolding b_def docs_def by blast
  show ?thesis
    using predict_reaches_loop[OF assms(3-7)] run log by (simp add: raised_def)
qed

theorem predict_document_failure_witness:
  "first_embedding (embed_documents (example_model (picky_backend example_doc_y) (Some 2))
     [example_doc_y]) = Inl ''boom'' \<and>
   isl (embed_documents (example_model (picky_backend example_doc_y) (Some 2))
     [example_doc_x, example_doc_y]) \<and>
   result (predict (example_env (picky_backend example_doc_y) (Some 2)) example_store example_df)
     = Inl (Exception ''Failed to generate embedding for document. Original error: boom'') \<and>
   error_log (events (predict (example_env (picky_backend example_doc_y) (Some 2)) example_store example_df))
     = [''Error embedding document at index 1: boom'']"
proof -
  let ?model = "example_model (picky_backend example_doc_y) (Some 2)"
  let ?df1 = "example_df\<lparr>columns := map strip_backticks (columns example_df)\<rparr>"
  let ?docs = "documents ?df1 [''a'', ''b'']"
  have bs: "0 < get_batch_size ?model" and b: "nat (get_batch_size ?model) = 2"
    by (simp_all add: get_batch_size_def example_model_def)
  have kl: "1 < length ?docs" by (simp add: example_documents_named)
  have earlier: "\<forall>i < 1 div nat (get_batch_size ?model).
      batch_completes ?model (take (nat (get_batch_size ?model))
        (drop (i * nat (get_batch_size ?model)) ?docs))"
    by (simp add: b)
  have fails: "isl (embed_documents ?model (take (nat (get_batch_size ?model))
      (drop ((1 div nat (get_batch_size ?model)) * nat (get_batch_size ?model)) ?docs)))"
    by (simp add: b example_documents_named example_model_fields picky_backend_def)
  have before: "\<forall>i. (1 div nat (get_batch_size ?model)) * nat (get_batch_size ?model) \<le> i \<and> i < 1 \<longrightarrow>
      \<not> isl (first_embedding (embed_documents ?model [?docs ! i]))"
    by (simp add: b example_documents_named example_model_fields picky_backend_def
        first_embedding_def example_docs_distinct)
  have bad: "first_embedding (embed_documents ?model [?docs ! 1]) = Inl ''boom''"
    by (simp add: example_documents_named example_model_fields picky_backend_def first_embedding_def)
  have bad': "first_embedding (embed_documents ?model [example_doc_y]) = Inl ''boom''"
    by (simp add: example_model_fields picky_backend_def first_embedding_def)
  have fails': "isl (embed_documents ?model [example_doc_x, example_doc_y])"
    by (simp add: example_model_fields picky_backend_def)
  note t = predict_document_failure[OF example_stored example_construct example_target
      example_prepared bs kl earlier fails before bad]
  have r: "result (predict (example_env (picky_backend example_doc_y) (Some 2)) example_store example_df)
     = Inl (Exception ''Failed to generate embedding for document. Original error: boom'')"
    using t[THEN conjunct1] by simp
  have l: "error_log (events (predict (example_env (picky_backend example_doc_y) (Some 2)) example_store example_df))
     = [''Error embedding document at index 1: boom'']"
    using t[THEN conjunct2] by (simp add: str_int_def str_nat_1)
  show ?thesis using bad' fails' r l by blast
qed

text \<open>
  The exception does not name the row: a run whose failing document is row 0 and a run
  whose failing document is row 1 raise the same exception; only the error log tells
  them apart.
\<close>

theorem predict_error_omits_row_index:
  "result (predict (example_env (picky_backend example_doc_x) (Some 2)) example_store example_df)
     = Inl (Exception ''Failed to generate embedding for document. Original error: boom'') \<and>
   result (predict (example_env (picky_backend example_doc_y) (Some 2)) example_store example_df)
     = Inl (Exception ''Failed to generate embedding for document. Original error: boom'') \<and>
   error_log (events (predict (example_env (picky_backend example_doc_x) (Some 2)) example_store example_df))
     = [''Error embedding document at index 0: boom''] \<and>
   error_log (events (predict (example_env (picky_backend example_doc_y) (Some 2)) example_store example_df))
     = [''Error embedding document at index 1: boom'']"
  using example_picky_run[of 0 example_doc_x] example_picky_run[of 1 example_doc_y]
  by (simp add: str_int_def str_nat_0 str_nat_1)

text \<open>
  C4: when the resolved input columns contain a name that the dataframe, its labels
  stripped of backticks, does not have, \<^verbatim>\<open>predict\<close> raises the exception of line 178,
  whose message names the requested input columns (the missing ones among them) and the
  columns of the dataframe, and no call of the backend has been made.
\<close>

theorem predict_missing_columns:
  assumes "json_get store ''args'' = JDict stored"
      and "construct_model_from_args env stored = (user_args, Inr model)"
      and "map_of user_args ''target'' = Some target"
      and "resolve_input_columns (map_of user_args ''input_columns'')
             (map strip_backticks (columns df)) = Inr input_columns"
      and "missing = filter (\<lambda>col. col \<notin> set (map strip_backticks (columns df))) input_columns"
      and "missing \<noteq> []"
  shows "result (predict env store df)
           = Inl (InputColumnsNotFound input_columns (map strip_backticks (columns df))) \<and>
         set missing \<subseteq> set input_columns \<and>
         calls (events (predict env store df)) = []"
proof -
  have "\<not> list_all (\<lambda>col. col \<in> set (map strip_backticks (columns df))) input_columns"
    using assms(5,6) by (auto simp: list_all_iff filter_empty_conv)
  then have "predict env store df
      = raised (InputColumnsNotFound input_columns (map strip_backticks (columns df)))
          (df\<lparr>columns := map strip_backticks (columns df)\<rparr>) no_trace"
    using assms(1-4) by (simp add: predict_def Let_def)
  then show ?thesis using assms(5) by (auto simp: raised_def no_trace_def)
qed

theorem predict_missing_columns_witness:
  "result (predict (example_env length_backend (Some 2)) (store_with (stored_args [''a'', ''c''] ''emb''))
       example_df)
     = Inl (InputColumnsNotFound [''a'', ''c''] [''a'', ''b'']) \<and>
   calls (events (predict (example_env length_backend (Some 2))
       (store_with (stored_args [''a'', ''c''] ''emb'')) example_df)) = []"
proof -
  have h4: "resolve_input_columns (map_of (stored_args [''a'', ''c''] ''emb'') ''input_columns'')
             (map strip_backticks (columns example_df)) = Inr [''a'', ''c'']"
    by (simp add: stored_lookup resolve_input_columns_def)
  have h5: "[''c''] = filter (\<lambda>col. col \<notin> set (map strip_backticks (columns example_df))) [''a'', ''c'']"
    by (simp add: example_columns)
  have h6: "[''c''] \<noteq> []" by simp
  show ?thesis
    using predict_missing_columns[OF stored_get stored_construct stored_lookup(1) h4 h5 h6]
    by (simp add: example_columns)
qed

text \<open>
  C10: once the model is reconstructed and the target read, \<^verbatim>\<open>predict\<close> overwrites the
  column labels of the dataframe object it was given with their backtick-stripped forms,
  before any embedding work and however the call ends: afterwards the caller's frame has
  the stripped labels and its old rows, and no target column; the frame with the target
  is another object.
\<close>

theorem predict_strips_caller_columns:
  assumes "json_get store ''args'' = JDict stored"
      and "construct_model_from_args env stored = (user_args, Inr model)"
      and "map_of user_args ''target'' = Some target"
  shows "caller_df (predict env store df) = df\<lparr>columns := map strip_backticks (columns df)\<rparr>"
  using assms
  by (simp add: predict_def Let_def raised_def split: sum.splits prod.splits)

theorem predict_strips_caller_columns_witness:
  "caller_df (predict (example_env length_backend (Some 2)) example_store example_df)
     = \<lparr>columns = [''a'', ''b''],
        rows = [[VInt 1, VStr ''x''], [VInt 22, VStr ''y''], [VInt 333, VStr ''z'']]\<rparr> \<and>
   columns example_df = [[CHR 0x60] @ ''a'' @ [CHR 0x60], ''b''] \<and>
   caller_df (predict (example_env length_backend (Some 2))
       (store_with (stored_args [''a'', ''c''] ''emb'')) example_df)
     = \<lparr>columns = [''a'', ''b''],
        rows = [[VInt 1, VStr ''x''], [VInt 22, VStr ''y''], [VInt 333, VStr ''z'']]\<rparr>"
proof -
  have first: "caller_df (predict (example_env length_backend (Some 2)) example_store example_df)
      = example_df\<lparr>columns := map strip_backticks (columns example_df)\<rparr>"
    by (rule predict_strips_caller_columns[OF example_stored example_construct example_target])
  have second: "caller_df (predict (example_env length_backend (Some 2))
       (store_with (stored_args [''a'', ''c''] ''emb'')) example_df)
      = example_df\<lparr>columns := map strip_backticks (columns example_df)\<rparr>"
    by (rule predict_strips_caller_columns[OF stored_get stored_construct stored_lookup(1)])
  have frame: "example_df\<lparr>columns := map strip_backticks (columns example_df)\<rparr>
      = \<lparr>columns = [''a'', ''b''],
         rows = [[VInt 1, VStr ''x''], [VInt 22, VStr ''y''], [VInt 333, VStr ''z'']]\<rparr>"
    by (simp add: example_columns) (simp add: example_df_def)
  have labels: "columns example_df = [[CHR 0x60] @ ''a'' @ [CHR 0x60], ''b'']"
    by (simp add: example_df_def backtick_def)
  show ?thesis using first second frame labels by simp
qed

text \<open>
  C5, as the code has it: with a stored configuration whose input-columns list is empty
  and a prediction dataframe with the columns \<^verbatim>\<open>a\<close>, \<^verbatim>\<open>b\<close> and \<^verbatim>\<open>target\<close>, the target
  column being \<^verbatim>\<open>target\<close>, the input columns the documents are built from are all
  columns of the input, the target among them: \<^verbatim>\<open>predict\<close> runs the batch loop on
  \<^verbatim>\<open>["a", "b", "target"]\<close>.
\<close>

theorem predict_empty_input_columns:
  assumes "json_get store ''args'' = JDict stored"
      and "construct_model_from_args env stored = (user_args, Inr model)"
      and "map_of user_args ''target'' = Some (JStr ''target'')"
      and "map_of user_args ''input_columns'' = Some (JList [])"
      and "columns df = [''a'', ''b'', ''target'']"
  shows "resolve_input_columns (map_of user_args ''input_columns'')
           (map strip_backticks (columns df)) = Inr [''a'', ''b'', ''target''] \<and>
         predict env store df =
           (case embed_batches model df [''a'', ''b'', ''target''] of
              (Inl e, tr) \<Rightarrow> raised e df tr
            | (Inr all_embeddings, tr) \<Rightarrow>
                \<lparr>result = assign (JStr ''target'') all_embeddings df, caller_df = df, events = tr\<rparr>)"
proof -
  have cols: "map strip_backticks (columns df) = [''a'', ''b'', ''target'']"
    using assms(5) by (simp add: strip_backticks_def backtick_def)
  then have same: "df\<lparr>columns := map strip_backticks (columns df)\<rparr> = df"
    using assms(5) by simp
  have r: "resolve_input_columns (map_of user_args ''input_columns'')
           (map strip_backticks (columns df)) = Inr [''a'', ''b'', ''target'']"
    using assms(4) cols by (simp add: resolve_input_columns_def)
  have v: "list_all (\<lambda>col. col \<in> set (map strip_backticks (columns df))) [''a'', ''b'', ''target'']"
    using cols by simp
  note p = predict_reaches_loop[OF assms(1,2,3) r v, unfolded same]
  show ?thesis using r p by blast
qed

theorem predict_empty_input_columns_witness:
  "map_of (stored_args [] ''target'') ''input_columns'' = Some (JList []) \<and>
   columns target_df = [''a'', ''b'', ''target''] \<and>
   result (predict (example_env length_backend None) (store_with (stored_args [] ''target'')) target_df)
     = Inr \<lparr>columns = [''a'', ''b'', ''target''],
            rows = [[Val (VInt 1), Val (VInt 2), Vec 19]]\<rparr>"
proof -
  let ?model = "example_model length_backend None"
  have cols: "columns target_df = [''a'', ''b'', ''target'']" by (simp add: target_df_def)
  have bs: "0 < get_batch_size ?model"
    by (simp add: get_batch_size_def example_model_fields)
  have ok: "\<forall>ds. \<exists>vs. embed_documents ?model ds = Inr vs"
    by (simp add: example_model_fields length_backend_def)
  have same: "target_df\<lparr>columns := [''a'', ''b'', ''target'']\<rparr> = target_df"
    by (simp add: target_df_def)
  have run: "embed_batches ?model target_df [''a'', ''b'', ''target'']
      = (Inr [19], \<lparr>calls = [[''a: 1'' @ [newline] @ ''b: 2'' @ [newline] @ ''target: 3'']],
                    error_log = []\<rparr>)"
    unfolding embed_batches_never_fails[OF bs ok]
    using target_df_documents[unfolded same]
    by (simp add: chunks_single get_batch_size_def example_model_fields length_backend_def)
  note t = predict_empty_input_columns[OF stored_get stored_construct stored_lookup(1)
      stored_lookup(2) cols, THEN conjunct2]
  have "result (predict (example_env length_backend None) (store_with (stored_args [] ''target'')) target_df)
     = assign (JStr ''target'') [19] target_df"
    unfolding t run by simp
  also have "\<dots> = Inr \<lparr>columns = [''a'', ''b'', ''target''],
            rows = [[Val (VInt 1), Val (VInt 2), Vec 19]]\<rparr>"
    by (simp add: assign_def target_df_def)
  finally show ?thesis using cols by (simp add: stored_lookup)
qed

text \<open>
  The effective input columns are not \<^verbatim>\<open>["a", "b"]\<close>: the document sent to the backend
  has a line for the target column.
\<close>

theorem predict_empty_input_columns_include_target:
  "resolve_input_columns (map_of (stored_args [] ''target'') ''input_columns'')
     (map strip_backticks (columns target_df)) = Inr [''a'', ''b'', ''target''] \<and>
   calls (events (predict (example_env length_backend None) (store_with (stored_args [] ''target''))
       target_df))
     = [[''a: 1'' @ [newline] @ ''b: 2'' @ [newline] @ ''target: 3'']]"
proof -
  let ?model = "example_model length_backend None"
  have r: "resolve_input_columns (map_of (stored_args [] ''target'') ''input_columns'')
     (map strip_backticks (columns target_df)) = Inr [''a'', ''b'', ''target'']"
    by (simp add: stored_lookup resolve_input_columns_def target_df_columns)
  have v: "list_all (\<lambda>col. col \<in> set (map strip_backticks (columns target_df)))
     [''a'', ''b'', ''target'']"
    by (simp add: target_df_columns)
  have bs: "0 < get_batch_size ?model"
    by (simp add: get_batch_size_def example_model_fields)
  have ok: "\<forall>ds. \<exists>vs. embed_documents ?model ds = Inr vs"
    by (simp add: example_model_fields length_backend_def)
  have "calls (snd (embed_batches ?model (target_df\<lparr>columns := map strip_backticks (columns target_df)\<rparr>)
      [''a'', ''b'', ''target'']))
    = [[''a: 1'' @ [newline] @ ''b: 2'' @ [newline] @ ''target: 3'']]"
    unfolding embed_batches_never_fails[OF bs ok]
    by (simp add: target_df_columns target_df_documents chunks_single get_batch_size_def
        example_model_fields)
  then show ?thesis
    using r predict_reaches_loop[OF stored_get stored_construct stored_lookup(1) r v]
      embed_batches_never_fails[OF bs ok, of "target_df\<lparr>columns := map strip_backticks (columns target_df)\<rparr>" "[''a'', ''b'', ''target'']"]
    by simp
qed

subsection \<open>Claims about model construction and description\<close>

text \<open>
  C6, as the code has it: \<^verbatim>\<open>construct_model_from_args\<close> pops \<^verbatim>\<open>target\<close> and \<^verbatim>\<open>class\<close>
  from the mapping of the caller itself (the deep copy of line 92 is taken afterwards, for
  the constructor arguments). When resolution or construction raises, the caller's
  mapping is left without the two keys. After a successful construction the caller's
  mapping has \<^verbatim>\<open>class\<close> set to the resolved backend identifier, \<^verbatim>\<open>target\<close> re-attached
  unless it was absent or \<^verbatim>\<open>None\<close>, and every other key as it was.
\<close>

theorem construct_model_from_args_mutates:
  assumes "construct_model_from_args env args = (args1, r)"
  shows "(isl r \<longrightarrow> args1 = AList.delete ''class'' (AList.delete ''target'' args)) \<and>
         (\<not> isl r \<longrightarrow>
            (\<exists>given. (case map_of args ''class'' of None \<Rightarrow> JStr DEFAULT_EMBEDDING_CLASS | Some c \<Rightarrow> c)
                        = JStr given \<and>
                     map_of args1 ''class'' = Some (JStr (resolve_alias env given))) \<and>
            map_of args1 ''target''
              = (if map_of args ''target'' = Some JNone then None else map_of args ''target'') \<and>
            (\<forall>k. k \<noteq> ''target'' \<and> k \<noteq> ''class'' \<longrightarrow> map_of args1 k = map_of args k))"
proof (cases r)
  case (Inl e)
  then show ?thesis using construct_failure[of env args args1 e] assms by simp
next
  case (Inr model)
  from assms[unfolded Inr] show ?thesis
  proof (rule construct_success_elim)
    fix given MODEL_CLASS
    assume given: "(case map_of args ''class'' of None \<Rightarrow> JStr DEFAULT_EMBEDDING_CLASS | Some c \<Rightarrow> c)
                     = JStr given"
      and args1: "args1 = AList.update ''class'' (JStr (resolve_alias env given))
       (if (case map_of args ''target'' of None \<Rightarrow> JNone | Some t \<Rightarrow> t) \<noteq> JNone
        then AList.update ''target'' (case map_of args ''target'' of None \<Rightarrow> JNone | Some t \<Rightarrow> t)
               (AList.delete ''class'' (AList.delete ''target'' args))
        else AList.delete ''class'' (AList.delete ''target'' args))"
    have c: "map_of args1 ''class'' = Some (JStr (resolve_alias env given))"
      unfolding args1 by (simp add: update_conv')
    have t: "map_of args1 ''target''
              = (if map_of args ''target'' = Some JNone then None else map_of args ''target'')"
      unfolding args1 by (auto simp: update_conv' delete_conv' split: option.splits)
    have o: "\<forall>k. k \<noteq> ''target'' \<and> k \<noteq> ''class'' \<longrightarrow> map_of args1 k = map_of args k"
      unfolding args1 by (auto simp: update_conv' delete_conv')
    show ?thesis using Inr given c t o by auto
  qed
qed

theorem construct_model_from_args_mutates_witness:
  "fst (construct_model_from_args (example_env length_backend None) unknown_args) = [] \<and>
   isl (snd (construct_model_from_args (example_env length_backend None) unknown_args)) \<and>
   map_of (fst (construct_model_from_args (example_env length_backend None) alias_args)) ''class''
     = Some (JStr ''OpenAIEmbeddings'') \<and>
   map_of (fst (construct_model_from_args (example_env length_backend None) alias_args)) ''target''
     = Some (JStr ''emb'') \<and>
   map_of (fst (construct_model_from_args (example_env length_backend None) alias_args)) ''model''
     = Some (JStr ''m'')"
proof -
  note bad = construct_model_from_args_mutates[OF unknown_construct, of length_backend None]
  note good = construct_model_from_args_mutates[OF alias_construct, of length_backend None]
  have 1: "fst (construct_model_from_args (example_env length_backend None) unknown_args) = []"
    using bad by (simp add: unknown_construct)
  have 2: "isl (snd (construct_model_from_args (example_env length_backend None) unknown_args))"
    by (simp add: unknown_construct)
  have 3: "map_of (fst (construct_model_from_args (example_env length_backend None) alias_args)) ''class''
     = Some (JStr ''OpenAIEmbeddings'')"
    unfolding alias_construct using good by (simp add: alias_args_def example_resolve)
  have 4: "map_of (fst (construct_model_from_args (example_env length_backend None) alias_args)) ''target''
     = Some (JStr ''emb'')"
    unfolding alias_construct using good by (simp add: alias_args_def)
  have 5: "map_of (fst (construct_model_from_args (example_env length_backend None) alias_args)) ''model''
     = Some (JStr ''m'')"
    unfolding alias_construct using good by (simp add: alias_args_def)
  show ?thesis using 1 2 3 4 5 by blast
qed

text \<open>
  The caller's mapping is changed before resolution: when the class cannot be found, the
  mapping that held \<^verbatim>\<open>target\<close> and \<^verbatim>\<open>class\<close> is empty after the call.
\<close>

theorem construct_model_from_args_pops_caller_args:
  "map_of unknown_args ''target'' = Some (JStr ''emb'') \<and>
   map_of unknown_args ''class'' = Some (JStr ''NoSuchClass'') \<and>
   construct_model_from_args (example_env length_backend None) unknown_args
     = ([], Inl (Exception (''Could not find the class NoSuchClass''
          @ '' in langchain_community.embeddings. Please check the class name.'')))"
  by (simp add: unknown_construct) (simp add: unknown_args_def)

text \<open>
  C7: when a configuration constructs and the registry is alias-closed, constructing
  again from the configuration the first call left (which holds the resolved \<^verbatim>\<open>class\<close>)
  succeeds with the same model and leaves the configuration, and so the backend
  identifier under \<^verbatim>\<open>class\<close>, as it is.
\<close>

theorem construct_model_from_args_idempotent:
  assumes "construct_model_from_args env args = (args1, Inr model)"
      and "alias_closed env"
  shows "construct_model_from_args env args1 = (args1, Inr model) \<and>
         (\<exists>name. map_of args1 ''class'' = Some (JStr name) \<and>
                 map_of (fst (construct_model_from_args env args1)) ''class'' = Some (JStr name))"
  using assms(1)
proof (rule construct_success_elim)
  fix given MODEL_CLASS
  let ?base = "AList.delete ''class'' (AList.delete ''target'' args)"
  let ?T = "case map_of args ''target'' of None \<Rightarrow> JNone | Some t \<Rightarrow> t"
  let ?X = "if ?T \<noteq> JNone then AList.update ''target'' ?T ?base else ?base"
  let ?cn = "resolve_alias env given"
  assume mc: "get_langchain_class env ?cn = Inr MODEL_CLASS"
    and init: "init MODEL_CLASS
       (if is_base_model MODEL_CLASS
        then filter (\<lambda>(k, v). k \<in> set (model_fields MODEL_CLASS)) ?base
        else ?base) = Inr model"
    and args1: "args1 = AList.update ''class'' (JStr ?cn) ?X"
  have base_t: "AList.delete ''target'' ?base = ?base"
    by (simp add: delete_twist[of "''target''" "''class''"] delete_idem)
  have base_c: "AList.delete ''class'' ?base = ?base"
    by (simp add: delete_idem)
  have X_t: "AList.delete ''target'' ?X = ?base"
    by (simp add: delete_update_same base_t)
  have popped: "AList.delete ''class'' (AList.delete ''target'' args1) = ?base"
    unfolding args1 by (simp add: delete_update delete_update_same X_t base_c del: delete_simps)
  have cls: "(case map_of args1 ''class'' of None \<Rightarrow> JStr DEFAULT_EMBEDDING_CLASS | Some c \<Rightarrow> c)
             = JStr ?cn"
    unfolding args1 by (simp add: update_conv')
  have tgt: "(case map_of args1 ''target'' of None \<Rightarrow> JNone | Some t \<Rightarrow> t) = ?T"
    unfolding args1 by (simp add: update_conv' delete_conv')
  have closed: "resolve_alias env ?cn = ?cn"
    by (rule resolve_alias_closed[OF assms(2)])
  have mc': "get_langchain_class env (resolve_alias env ?cn) = Inr MODEL_CLASS"
    unfolding closed by (rule mc)
  have init': "init MODEL_CLASS
       (if is_base_model MODEL_CLASS
        then filter (\<lambda>(k, v). k \<in> set (model_fields MODEL_CLASS))
               (AList.delete ''class'' (AList.delete ''target'' args1))
        else AList.delete ''class'' (AList.delete ''target'' args1)) = Inr model"
    unfolding popped by (rule init)
  have "construct_model_from_args env args1
      = (AList.update ''class'' (JStr (resolve_alias env ?cn))
          (if (case map_of args1 ''target'' of None \<Rightarrow> JNone | Some t \<Rightarrow> t) \<noteq> JNone
           then AList.update ''target'' (case map_of args1 ''target'' of None \<Rightarrow> JNone | Some t \<Rightarrow> t)
                  (AList.delete ''class'' (AList.delete ''target'' args1))
           else AList.delete ''class'' (AList.delete ''target'' args1)), Inr model)"
    by (rule construct_success_intro[OF cls mc' init'])
  then have again: "construct_model_from_args env args1 = (args1, Inr model)"
    unfolding closed popped tgt args1[symmetric] .
  have "map_of args1 ''class'' = Some (JStr ?cn)"
    unfolding args1 by (simp add: update_conv')
  then show ?thesis using again by simp
qed

theorem construct_model_from_args_idempotent_witness:
  "alias_closed (example_env length_backend None) \<and>
   construct_model_from_args (example_env length_backend None) alias_args
     = (resolved_args, Inr (example_model length_backend None)) \<and>
   construct_model_from_args (example_env length_backend None) resolved_args
     = (resolved_args, Inr (example_model length_backend None)) \<and>
   map_of resolved_args ''class'' = Some (JStr ''OpenAIEmbeddings'')"
  using construct_model_from_args_idempotent[OF alias_construct example_alias_closed,
      of length_backend None]
    alias_construct[of length_backend None] example_alias_closed[of length_backend None]
  by (simp add: resolved_args_def)

text \<open>
  C9: the description interface has the views \<^verbatim>\<open>args\<close> and \<^verbatim>\<open>metadata\<close>. The first
  returns the persisted configuration as key/value pairs, with the resolved backend
  identifier under \<^verbatim>\<open>class\<close>. The second returns what the store holds under the name
  \<^verbatim>\<open>model_class\<close>, which \<^verbatim>\<open>create\<close> never sets: after creating a model with the alias
  \<^verbatim>\<open>VLLM\<close> it is what that name read as before, \<^verbatim>\<open>None\<close> in a store where nothing was
  set.
\<close>

theorem describe_metadata_after_create:
  "create (example_env length_backend None) store (Some ''emb'') None create_args
     = (Inr (), json_set store ''args'' (JDict created_args)) \<and>
   describe (json_set store ''args'' (JDict created_args)) (Some ''args'')
     = Inr (KeyValue created_args) \<and>
   map_of created_args ''class'' = Some (JStr ''VLLMEmbeddings'') \<and>
   describe (json_set store ''args'' (JDict created_args)) (Some ''metadata'')
     = Inr (KeyValue [(''model_class'', json_get store ''model_class'')]) \<and>
   describe (snd (create (example_env length_backend None) empty_store (Some ''emb'') None
                    create_args)) (Some ''metadata'')
     = Inr (KeyValue [(''model_class'', JNone)])"
  by (simp add: create_example describe_def json_get_def json_set_def empty_store_def)
    (simp add: created_args_def)

end
